theory Spec2Isabelle
  imports Main "HOL-Library.Sublist" "HOL-Library.AList"
begin

section \<open>Skill installer and uninstaller: a shallow embedding\<close>

text \<open>
  The development embeds \<^verbatim>\<open>utils.js\<close>, \<^verbatim>\<open>install-skill.js\<close> and
  \<^verbatim>\<open>uninstall-skill.js\<close>. The scripts are CommonJS modules without a
  \<^verbatim>\<open>'use strict'\<close> directive, run by Node on a POSIX host (the source tests for
  the literal \<^verbatim>\<open>'/node_modules/'\<close>).

  Conventions of the model:
  \<^item> JavaScript strings are \<open>string\<close>; the non-ASCII pictograms of console messages are
    left out of the message texts.
  \<^item> A value read from a JSON file is a \<open>json\<close> value; \<open>undefined\<close> is \<open>None\<close> of
    an option type. JSON numbers are restricted to the integers that a double holds
    exactly; fractions and numbers out of that range are not expressible.
  \<^item> The configuration is the record of the data model: names and paths are strings and
    \<open>enabled\<close> is a boolean. \<open>targets\<close> and \<open>files\<close> list the members of their JSON
    object as the configuration file declares them.
  \<^item> The file system is an association list from path strings to nodes, looked up by
    \<open>map_of\<close>. Permissions and symbolic links are absent, so a file-system call fails only
    for a structural reason (a missing source, a directory in place of a file, ...).
  \<^item> Every function with an effect maps a \<open>world\<close> (file system and the trace of
    observable events so far) to a result and the world after it. An exception is the
    result \<open>Throw\<close>; the world reached when it was raised is kept.
\<close>

subsection \<open>Node's \<^verbatim>\<open>path\<close> module (POSIX flavour) and string helpers\<close>

text \<open>\<^verbatim>\<open>s.split('/')\<close>: never empty, \<^verbatim>\<open>''.split('/')\<close> is \<^verbatim>\<open>['']\<close>.\<close>

fun split_slash :: "string \<Rightarrow> string list" where
  "split_slash [] = [[]]"
| "split_slash (c # cs) =
     (if c = CHR ''/'' then [] # split_slash cs
      else (case split_slash cs of [] \<Rightarrow> [[c]] | x # xs \<Rightarrow> (c # x) # xs))"

text \<open>\<^verbatim>\<open>s.includes(t)\<close>: \<open>t\<close> occurs in \<open>s\<close> as a contiguous substring.\<close>

fun includes_str :: "string \<Rightarrow> string \<Rightarrow> bool" where
  "includes_str [] t = (t = [])"
| "includes_str (c # cs) t = (prefix t (c # cs) \<or> includes_str cs t)"

text \<open>\<^verbatim>\<open>s.startsWith(t)\<close>.\<close>

definition startsWith :: "string \<Rightarrow> string \<Rightarrow> bool" where
  "startsWith s t = prefix t s"

text \<open>
  \<^verbatim>\<open>normalizeString\<close> of Node's path module, on the segments between slashes: empty
  segments and \<^verbatim>\<open>.\<close> are dropped, \<^verbatim>\<open>..\<close> removes the segment before it, and is kept
  only at the front of a relative path.
\<close>

definition normalize_step :: "bool \<Rightarrow> string list \<Rightarrow> string \<Rightarrow> string list" where
  "normalize_step allowAboveRoot res seg =
     (if seg = [] \<or> seg = ''.'' then res
      else if seg = ''..'' then
        (if res \<noteq> [] \<and> last res \<noteq> ''..'' then butlast res
         else if allowAboveRoot then res @ [''..''] else res)
      else res @ [seg])"

definition normalizeString :: "string \<Rightarrow> bool \<Rightarrow> string list" where
  "normalizeString p allowAboveRoot = foldl (normalize_step allowAboveRoot) [] (split_slash p)"

fun join_slash :: "string list \<Rightarrow> string" where
  "join_slash [] = []"
| "join_slash [s] = s"
| "join_slash (s # t # ss) = s @ ''/'' @ join_slash (t # ss)"

text \<open>\<^verbatim>\<open>path.normalize\<close>.\<close>

definition normalize :: "string \<Rightarrow> string" where
  "normalize p =
     (if p = [] then ''.''
      else
        let isAbsolute = (hd p = CHR ''/'');
            trailingSeparator = (last p = CHR ''/'');
            q = join_slash (normalizeString p (\<not> isAbsolute))
        in if q = [] then (if isAbsolute then ''/'' else if trailingSeparator then ''./'' else ''.'')
           else (if isAbsolute then ''/'' else []) @ q @ (if trailingSeparator then ''/'' else []))"

text \<open>\<^verbatim>\<open>path.join(a, b)\<close>: the non-empty arguments, joined by a slash and normalised.\<close>

definition join :: "string \<Rightarrow> string \<Rightarrow> string" where
  "join a b =
     (let args = filter (\<lambda>s. s \<noteq> []) [a, b]
      in if args = [] then ''.'' else normalize (join_slash args))"

text \<open>
  \<^verbatim>\<open>path.dirname\<close>. Node scans the indices \<open>length p - 1\<close> down to \<open>1\<close>: it skips the
  trailing slashes, then the last component, and cuts at the slash in front of it
  (\<open>rest\<close> below is the reversed text up to and including that slash). Without such a
  slash the result is \<^verbatim>\<open>/\<close> for a rooted path and \<^verbatim>\<open>.\<close> otherwise.
\<close>

definition dirname :: "string \<Rightarrow> string" where
  "dirname p =
     (if p = [] then ''.''
      else
        let hasRoot = (hd p = CHR ''/'');
            body = dropWhile (\<lambda>c. c = CHR ''/'') (rev (tl p));
            rest = dropWhile (\<lambda>c. c \<noteq> CHR ''/'') body
        in if rest = [] then (if hasRoot then ''/'' else ''.'')
           else if hasRoot \<and> length rest = 1 then ''//''
           else hd p # rev (tl rest))"

text \<open>\<^verbatim>\<open>path.basename\<close>: the last component, trailing slashes ignored.\<close>

definition basename :: "string \<Rightarrow> string" where
  "basename p = rev (takeWhile (\<lambda>c. c \<noteq> CHR ''/'') (dropWhile (\<lambda>c. c = CHR ''/'') (rev p)))"

subsection \<open>JSON values and JavaScript property access\<close>

datatype json =
    JNull
  | JBool bool
  | JNum int
  | JStr string
  | JArr "json list"
  | JObj "(string \<times> json) list"

text \<open>JavaScript truthiness of a JSON value.\<close>

fun truthy :: "json \<Rightarrow> bool" where
  "truthy JNull = False"
| "truthy (JBool b) = b"
| "truthy (JNum n) = (n \<noteq> 0)"
| "truthy (JStr s) = (s \<noteq> [])"
| "truthy (JArr xs) = True"
| "truthy (JObj ps) = True"

datatype error =
    TypeError
  | RangeError
  | SyntaxError
  | FsError string
  | Error string

datatype 'a res = Ok 'a | Throw error | Timeout

text \<open>
  An array index is a canonical decimal numeral below \<open>2^32 - 1\<close>; any other property
  name of an array is an ordinary property, which \<^verbatim>\<open>JSON.stringify\<close> does not print.
\<close>

definition digit_val :: "char \<Rightarrow> nat" where
  "digit_val c = of_char c - 48"

definition is_digit :: "char \<Rightarrow> bool" where
  "is_digit c = (48 \<le> (of_char c :: nat) \<and> (of_char c :: nat) \<le> 57)"

definition array_index :: "string \<Rightarrow> nat option" where
  "array_index k =
     (if k \<noteq> [] \<and> list_all is_digit k \<and> (k = ''0'' \<or> hd k \<noteq> CHR ''0'')
      then (let n = foldl (\<lambda>a c. 10 * a + int (digit_val c)) 0 k
            in if n < 4294967295 then Some (nat n) else None)
      else None)"

text \<open>The own properties of a value that is not \<open>null\<close>.\<close>

fun own_prop :: "json \<Rightarrow> string \<Rightarrow> json option" where
  "own_prop (JObj ps) k = map_of ps k"
| "own_prop (JArr xs) k =
     (if k = ''length'' then Some (JNum (int (length xs)))
      else (case array_index k of
              Some i \<Rightarrow> (if i < length xs then Some (xs ! i) else None)
            | None \<Rightarrow> None))"
| "own_prop (JStr s) k =
     (if k = ''length'' then Some (JNum (int (length s)))
      else (case array_index k of
              Some i \<Rightarrow> (if i < length s then Some (JStr [s ! i]) else None)
            | None \<Rightarrow> None))"
| "own_prop v k = None"

text \<open>
  The property names that every value inherits from \<^verbatim>\<open>Object.prototype\<close>; each of them
  reads as a function or an object, which is truthy. The further members of
  \<^verbatim>\<open>Array.prototype\<close>, \<^verbatim>\<open>String.prototype\<close>, \<^verbatim>\<open>Number.prototype\<close> and
  \<^verbatim>\<open>Boolean.prototype\<close> are not modelled.
\<close>

definition object_prototype_member :: "string \<Rightarrow> bool" where
  "object_prototype_member k =
     (k \<in> set [''constructor'', ''__defineGetter__'', ''__defineSetter__'', ''hasOwnProperty'',
                ''__lookupGetter__'', ''__lookupSetter__'', ''isPrototypeOf'',
                ''propertyIsEnumerable'', ''toString'', ''valueOf'', ''__proto__'',
                ''toLocaleString''])"

text \<open>Whether \<^verbatim>\<open>v[k]\<close> is truthy, for a truthy \<open>v\<close>: an own property hides an inherited one.\<close>

definition member_truthy :: "json \<Rightarrow> string \<Rightarrow> bool" where
  "member_truthy v k =
     (case own_prop v k of Some x \<Rightarrow> truthy x | None \<Rightarrow> object_prototype_member k)"

text \<open>
  \<^verbatim>\<open>v.k\<close> for a name that no prototype has: reading a property of \<open>null\<close> or
  \<open>undefined\<close> throws.
\<close>

fun get_prop :: "json option \<Rightarrow> string \<Rightarrow> json option res" where
  "get_prop None k = Throw TypeError"
| "get_prop (Some JNull) k = Throw TypeError"
| "get_prop (Some v) k = Ok (own_prop v k)"

text \<open>
  A new member of an object. An object enumerates the names that are array indices
  first, in ascending order, and the other names after them in the order of their
  creation: a new index goes in front of the first member that is no smaller index, any
  other new name goes to the end.
\<close>

fun insert_index :: "nat \<Rightarrow> string \<Rightarrow> 'a \<Rightarrow> (string \<times> 'a) list \<Rightarrow> (string \<times> 'a) list" where
  "insert_index i k v [] = [(k, v)]"
| "insert_index i k v (p # ps) =
     (case array_index (fst p) of
        Some j \<Rightarrow> (if j < i then p # insert_index i k v ps else (k, v) # p # ps)
      | None \<Rightarrow> (k, v) # p # ps)"

text \<open>
  \<^verbatim>\<open>obj[k] = v\<close> on an object, by its own enumerable members afterwards. An own member
  keeps its place and takes the value. For a name that is not an own member, the
  assignment creates one, except for \<^verbatim>\<open>__proto__\<close>: that is the accessor of
  \<^verbatim>\<open>Object.prototype\<close>, the assignment replaces the prototype and the object gets no
  member.
\<close>

definition put_member :: "string \<Rightarrow> 'a \<Rightarrow> (string \<times> 'a) list \<Rightarrow> (string \<times> 'a) list" where
  "put_member k v ps =
     (if map_of ps k \<noteq> None then AList.update k v ps
      else if k = ''__proto__'' then ps
      else (case array_index k of
              Some i \<Rightarrow> insert_index i k v ps
            | None \<Rightarrow> ps @ [(k, v)]))"

text \<open>
  \<^verbatim>\<open>target[k] = v\<close> as \<^verbatim>\<open>JSON.stringify\<close> later shows it, the target given by its
  value. On \<open>undefined\<close> and \<open>null\<close> the assignment throws. On a number, a string or a
  boolean it is dropped without an error, the script not being in strict mode. On an
  array it writes the element at an index (the gap before it prints as \<open>null\<close>), fails
  on \<^verbatim>\<open>length\<close>, and is invisible for any other name.
\<close>

fun set_prop :: "json option \<Rightarrow> string \<Rightarrow> json \<Rightarrow> json res" where
  "set_prop None k v = Throw TypeError"
| "set_prop (Some JNull) k v = Throw TypeError"
| "set_prop (Some (JObj ps)) k v = Ok (JObj (put_member k v ps))"
| "set_prop (Some (JArr xs)) k v =
     (if k = ''length'' then Throw RangeError
      else (case array_index k of
              Some i \<Rightarrow> Ok (JArr (if i < length xs then xs[i := v]
                                   else xs @ replicate (i - length xs) JNull @ [v]))
            | None \<Rightarrow> Ok (JArr xs)))"
| "set_prop (Some t) k v = Ok t"

text \<open>
  \<^verbatim>\<open>delete target[k]\<close> on a truthy target, as \<^verbatim>\<open>JSON.stringify\<close> later shows it: an
  object loses the key, an array keeps a hole (printed as \<open>null\<close>) at an index, and
  nothing else can be deleted.
\<close>

fun delete_prop :: "json \<Rightarrow> string \<Rightarrow> json" where
  "delete_prop (JObj ps) k = JObj (filter (\<lambda>(k', _). k' \<noteq> k) ps)"
| "delete_prop (JArr xs) k =
     (case array_index k of
        Some i \<Rightarrow> JArr (if i < length xs then xs[i := JNull] else xs)
      | None \<Rightarrow> JArr xs)"
| "delete_prop t k = t"

text \<open>
  \<^verbatim>\<open>Object.entries\<close> of the object that \<^verbatim>\<open>JSON.parse\<close> builds from the members \<open>ms\<close>
  of an object text. A name written twice keeps its first place and its last value; the
  names that are array indices come first, in ascending order, the others follow in the
  order of the text.
\<close>

definition parse_members :: "(string \<times> 'a) list \<Rightarrow> (string \<times> 'a) list" where
  "parse_members ms = foldl (\<lambda>obj m. AList.update (fst m) (snd m) obj) [] ms"

definition index_of :: "string \<Rightarrow> nat" where
  "index_of k = (case array_index k of Some i \<Rightarrow> i | None \<Rightarrow> 0)"

definition is_index :: "string \<Rightarrow> bool" where
  "is_index k = (array_index k \<noteq> None)"

definition Object_entries :: "(string \<times> 'a) list \<Rightarrow> (string \<times> 'a) list" where
  "Object_entries ms =
     sort_key (\<lambda>m. index_of (fst m)) (filter (\<lambda>m. is_index (fst m)) (parse_members ms))
     @ filter (\<lambda>m. \<not> is_index (fst m)) (parse_members ms)"

subsection \<open>Data model\<close>

record targetPaths =
  global :: string
  project :: string

record targetSpec =
  enabled :: bool
  paths :: targetPaths

record resolvedTarget =
  name :: string
  paths :: targetPaths

record hooks =
  postinstall :: "string option"

text \<open>
  \<open>targets\<close> and \<open>files\<close> list the members of the JSON object in the order of the
  configuration file; \<open>None\<close> is an absent field.
\<close>

record config =
  name :: string
  version :: string
  package :: "string option"
  targets :: "(string \<times> targetSpec) list option"
  files :: "(string \<times> string) list option"
  hooks :: "hooks option"

record installLocation =
  type :: string
  base :: string

subsection \<open>The file system, the process environment and the world\<close>

text \<open>
  A file holds either a JSON text, given by the value it denotes (\<open>Doc\<close>: what
  \<^verbatim>\<open>JSON.parse\<close> returns and what \<^verbatim>\<open>JSON.stringify\<close> wrote), or a text that is not
  JSON (\<open>Raw\<close>: \<^verbatim>\<open>JSON.parse\<close> throws a \<^verbatim>\<open>SyntaxError\<close>).
\<close>

datatype content = Raw string | Doc json

datatype node = Dir | File content

type_synonym filesystem = "(string \<times> node) list"

datatype event =
    Console_log string
  | Console_warn string
  | Console_error string
  | RmSync string
  | MkdirSync string
  | CopyFileSync string string
  | WriteFileSync string content
  | ExecSync string string

record world =
  fs :: filesystem
  trace :: "event list"

text \<open>
  What the process reads from its surroundings: the two environment variables, the
  working directory, the home directory, the directory of the scripts
  (\<^verbatim>\<open>__dirname\<close>), the clock (\<^verbatim>\<open>new Date().toISOString()\<close>) and the shell, which runs
  a command in a directory and reports whether it exited with status 0.
\<close>

record env =
  INIT_CWD :: "string option"
  process_cwd :: string
  homedir :: string
  npm_config_global :: "string option"
  script_dirname :: string
  now :: string
  shell :: "string \<Rightarrow> string \<Rightarrow> filesystem \<Rightarrow> bool \<times> filesystem"

text \<open>\<^verbatim>\<open>const CWD = process.env.INIT_CWD || process.cwd()\<close>, evaluated once at load time.\<close>

definition CWD :: "env \<Rightarrow> string" where
  "CWD e = (case INIT_CWD e of
              Some s \<Rightarrow> (if s \<noteq> [] then s else process_cwd e)
            | None \<Rightarrow> process_cwd e)"

subsection \<open>File-system calls\<close>

definition existsSync :: "filesystem \<Rightarrow> string \<Rightarrow> bool" where
  "existsSync f p = (map_of f p \<noteq> None)"

text \<open>\<open>under d q\<close>: the path \<open>q\<close> lies below the directory \<open>d\<close>.\<close>

definition under :: "string \<Rightarrow> string \<Rightarrow> bool" where
  "under d q = prefix (d @ ''/'') q"

text \<open>\<^verbatim>\<open>fs.rmSync(p, { recursive: true, force: true })\<close>: no error when \<open>p\<close> is absent.\<close>

definition rmSync :: "filesystem \<Rightarrow> string \<Rightarrow> filesystem" where
  "rmSync f p = filter (\<lambda>(q, _). q \<noteq> p \<and> \<not> under p q) f"

definition readFileSync :: "filesystem \<Rightarrow> string \<Rightarrow> content res" where
  "readFileSync f p =
     (case map_of f p of
        Some (File c) \<Rightarrow> Ok c
      | Some Dir \<Rightarrow> Throw (FsError ''EISDIR'')
      | None \<Rightarrow> Throw (FsError ''ENOENT''))"

text \<open>\<^verbatim>\<open>JSON.parse\<close> of a file's text.\<close>

fun JSON_parse :: "content \<Rightarrow> json res" where
  "JSON_parse (Doc j) = Ok j"
| "JSON_parse (Raw s) = Throw SyntaxError"

text \<open>
  \<^verbatim>\<open>fs.writeFileSync(p, text)\<close>: overwrites a file, creates it in an existing
  directory, and fails on a directory or where the parent directory is missing.
\<close>

definition writeFileSync :: "filesystem \<Rightarrow> string \<Rightarrow> content \<Rightarrow> filesystem res" where
  "writeFileSync f p c =
     (case map_of f p of
        Some Dir \<Rightarrow> Throw (FsError ''EISDIR'')
      | Some (File old) \<Rightarrow> Ok (AList.update p (File c) f)
      | None \<Rightarrow>
          (if map_of f (dirname p) = Some Dir then Ok (AList.update p (File c) f)
           else Throw (FsError ''ENOENT'')))"

text \<open>\<^verbatim>\<open>fs.copyFileSync(src, dest)\<close>: the source must be a file.\<close>

definition copyFileSync :: "filesystem \<Rightarrow> string \<Rightarrow> string \<Rightarrow> filesystem res" where
  "copyFileSync f src dest =
     (case map_of f src of
        Some (File c) \<Rightarrow> writeFileSync f dest c
      | Some Dir \<Rightarrow> Throw (FsError ''EISDIR'')
      | None \<Rightarrow> Throw (FsError ''ENOENT''))"

text \<open>
  The walk from a path to the root by \<open>dirname\<close> ends: \<open>dirname\<close> shortens every path
  but its two fixed points \<^verbatim>\<open>/\<close> and \<^verbatim>\<open>.\<close>.
\<close>

definition path_measure :: "string \<Rightarrow> nat" where
  "path_measure p =
     (if p = [] then 3 else 2 * length p + (if p = ''/'' \<or> p = ''.'' then 0 else 1))"

lemma dirname_Nil: "dirname [] = ''.''"
  by (simp add: dirname_def)

lemma dirname_Cons:
  "dirname (c # cs) =
     (let rest = dropWhile (\<lambda>c. c \<noteq> CHR ''/'') (dropWhile (\<lambda>c. c = CHR ''/'') (rev cs))
      in if rest = [] then (if c = CHR ''/'' then ''/'' else ''.'')
         else if c = CHR ''/'' \<and> length rest = 1 then ''//''
         else c # rev (tl rest))"
  unfolding dirname_def Let_def by (simp only: list.sel list.simps if_False)

lemma dropWhile_twice_shorter:
  assumes "dropWhile (\<lambda>c. c \<noteq> a) (dropWhile (\<lambda>c. c = a) xs) \<noteq> []"
  shows "length (dropWhile (\<lambda>c. c \<noteq> a) (dropWhile (\<lambda>c. c = a) xs)) < length xs"
proof -
  let ?body = "dropWhile (\<lambda>c. c = a) xs"
  from assms have ne: "?body \<noteq> []" by (metis dropWhile.simps(1))
  then obtain b bs where b: "?body = b # bs" by (cases ?body) blast+
  have "\<not> (hd ?body = a)" using ne by (rule hd_dropWhile)
  with b have "b \<noteq> a" by simp
  with b have eq: "dropWhile (\<lambda>c. c \<noteq> a) ?body = dropWhile (\<lambda>c. c \<noteq> a) bs" by simp
  have "length (dropWhile (\<lambda>c. c \<noteq> a) ?body) \<le> length bs"
    unfolding eq by (rule length_dropWhile_le)
  moreover have "length ?body \<le> length xs" by (rule length_dropWhile_le)
  moreover have "length ?body = Suc (length bs)" using b by simp
  ultimately show ?thesis by linarith
qed

lemma dirname_shape:
  obtains (root) "dirname p = ''/''" | (dot) "dirname p = ''.''"
  | (double) "dirname p = ''//''" "3 \<le> length p"
  | (cut) "length (dirname p) + 2 \<le> length p"
proof (cases p)
  case Nil
  then show ?thesis using dot by (simp add: dirname_Nil)
next
  case (Cons c cs)
  define rest where "rest = dropWhile (\<lambda>c. c \<noteq> CHR ''/'') (dropWhile (\<lambda>c. c = CHR ''/'') (rev cs))"
  have d: "dirname p = (if rest = [] then (if c = CHR ''/'' then ''/'' else ''.'')
         else if c = CHR ''/'' \<and> length rest = 1 then ''//''
         else c # rev (tl rest))"
    unfolding Cons dirname_Cons rest_def Let_def ..
  show ?thesis
  proof (cases "rest = []")
    case True
    with d root dot show ?thesis by (cases "c = CHR ''/''") simp_all
  next
    case False
    then have "length rest < length (rev cs)"
      unfolding rest_def by (rule dropWhile_twice_shorter)
    then have len: "length rest < length cs" by simp
    from False have pos: "0 < length rest" by simp
    show ?thesis
    proof (cases "c = CHR ''/'' \<and> length rest = 1")
      case True
      with d False have "dirname p = ''//''" by simp
      moreover from True len Cons have "3 \<le> length p" by simp
      ultimately show ?thesis by (rule double)
    next
      case F2: False
      with d False have "dirname p = c # rev (tl rest)" by auto
      then have "length (dirname p) = length rest" using pos by simp
      with len Cons have "length (dirname p) + 2 \<le> length p" by simp
      then show ?thesis by (rule cut)
    qed
  qed
qed

lemma dirname_fixed: 
  assumes "p = dirname p" shows "p = ''/'' \<or> p = ''.''"
proof (cases p rule: dirname_shape)
  case root with assms show ?thesis by simp
next
  case dot with assms show ?thesis by simp
next
  case double with assms show ?thesis by simp
next
  case cut with assms show ?thesis by simp
qed

lemma dirname_decreases:
  assumes "p \<noteq> dirname p"
  shows "path_measure (dirname p) < path_measure p"
proof -
  have small: "path_measure p > 2" if "dirname p = ''/'' \<or> dirname p = ''.''"
  proof (cases p)
    case Nil then show ?thesis by (simp add: path_measure_def)
  next
    case (Cons c cs)
    show ?thesis
    proof (cases cs)
      case Nil
      with Cons assms that show ?thesis by (auto simp: path_measure_def dirname_Cons)
    next
      case (Cons d ds)
      with \<open>p = c # cs\<close> show ?thesis by (simp add: path_measure_def)
    qed
  qed
  show ?thesis
  proof (cases p rule: dirname_shape)
    case root with small show ?thesis by (simp add: path_measure_def)
  next
    case dot with small show ?thesis by (simp add: path_measure_def)
  next
    case double
    then show ?thesis by (cases p) (simp_all add: path_measure_def)
  next
    case cut
    then have "path_measure (dirname p) \<le> 2 * length (dirname p) + 3" by (simp add: path_measure_def)
    moreover from cut have "p \<noteq> []" by auto
    then have "2 * length p \<le> path_measure p" by (simp add: path_measure_def)
    ultimately show ?thesis using cut by linarith
  qed
qed

text \<open>The proper ancestors of a path, nearest first, the root included.\<close>

function ancestors :: "string \<Rightarrow> string list" where
  "ancestors p = (if p = dirname p then [] else dirname p # ancestors (dirname p))"
  by pat_completeness auto
termination
  by (relation "measure path_measure") (auto simp: dirname_decreases)

declare ancestors.simps [simp del]

text \<open>
  \<^verbatim>\<open>fs.mkdirSync(p, { recursive: true })\<close>: creates \<open>p\<close> and its missing ancestors, and
  fails where \<open>p\<close> or one of them is a file.
\<close>

definition mkdirSync :: "filesystem \<Rightarrow> string \<Rightarrow> filesystem res" where
  "mkdirSync f p =
     (let is_file = (\<lambda>q. case map_of f q of Some (File c) \<Rightarrow> True | _ \<Rightarrow> False)
      in if is_file p then Throw (FsError ''EEXIST'')
         else if list_ex is_file (ancestors p) then Throw (FsError ''ENOTDIR'')
         else Ok (foldr (\<lambda>q g. if existsSync g q then g else AList.update q Dir g)
                    (p # ancestors p) f))"

text \<open>
  \<^verbatim>\<open>fs.readdirSync(p, { withFileTypes: true })\<close>: the names directly below \<open>p\<close>, each
  with \<^verbatim>\<open>isDirectory()\<close> as it was at the time of the call.
\<close>

definition readdirSync :: "filesystem \<Rightarrow> string \<Rightarrow> (string \<times> bool) list res" where
  "readdirSync f p =
     (if map_of f p = Some Dir
      then Ok (map (\<lambda>n. (n, map_of f (p @ ''/'' @ n) = Some Dir))
                 (remdups (filter (\<lambda>n. n \<noteq> [] \<and> CHR ''/'' \<notin> set n)
                    (map (\<lambda>(q, _). drop (length p + 1) q)
                       (filter (\<lambda>(q, _). under p q) f)))))
      else Throw (FsError ''ENOTDIR''))"

subsection \<open>Effects\<close>

type_synonym 'a io = "world \<Rightarrow> 'a res \<times> world"

definition return_io :: "'a \<Rightarrow> 'a io" where
  "return_io x w = (Ok x, w)"

definition throw_io :: "error \<Rightarrow> 'a io" where
  "throw_io e w = (Throw e, w)"

definition bind_io :: "'a io \<Rightarrow> ('a \<Rightarrow> 'b io) \<Rightarrow> 'b io" where
  "bind_io m k w =
     (case m w of
        (Ok x, w') \<Rightarrow> k x w'
      | (Throw e, w') \<Rightarrow> (Throw e, w')
      | (Timeout, w') \<Rightarrow> (Timeout, w'))"

definition then_io :: "unit io \<Rightarrow> 'b io \<Rightarrow> 'b io" where
  "then_io m k = bind_io m (\<lambda>_. k)"

text \<open>\<^verbatim>\<open>try { m } catch (error) { h }\<close>.\<close>

definition try_catch :: "'a io \<Rightarrow> (error \<Rightarrow> 'a io) \<Rightarrow> 'a io" where
  "try_catch m h w =
     (case m w of
        (Throw e, w') \<Rightarrow> h e w'
      | r \<Rightarrow> r)"

definition emit :: "event \<Rightarrow> unit io" where
  "emit ev w = (Ok (), w\<lparr>trace := trace w @ [ev]\<rparr>)"

text \<open>A mutating file-system call: the call is recorded, then it succeeds or throws.\<close>

definition fs_call :: "event \<Rightarrow> (filesystem \<Rightarrow> filesystem res) \<Rightarrow> unit io" where
  "fs_call ev op w =
     (let w1 = w\<lparr>trace := trace w @ [ev]\<rparr>
      in case op (fs w) of
           Ok f' \<Rightarrow> (Ok (), w1\<lparr>fs := f'\<rparr>)
         | Throw e \<Rightarrow> (Throw e, w1)
         | Timeout \<Rightarrow> (Timeout, w1))"

subsection \<open>\<^verbatim>\<open>utils.js\<close>\<close>

text \<open>
  \<^verbatim>\<open>getEnabledTargets(config)\<close>. The filter tests \<^verbatim>\<open>target.enabled\<close> for truthiness,
  which for a boolean is the flag itself.
\<close>

definition getEnabledTargets :: "config \<Rightarrow> resolvedTarget list" where
  "getEnabledTargets cfg =
     (case targets cfg of
        None \<Rightarrow>
          [\<lparr>resolvedTarget.name = ''claude-code'',
            paths = \<lparr>global = ''.claude/skills'', project = ''.claude/skills''\<rparr>\<rparr>]
      | Some ts \<Rightarrow>
          map (\<lambda>(n, target). \<lparr>resolvedTarget.name = n, paths = targetSpec.paths target\<rparr>)
            (filter (\<lambda>(_, target). enabled target) (Object_entries ts)))"

text \<open>\<^verbatim>\<open>extractSkillName(packageName)\<close>: \<^verbatim>\<open>split('/')[1] || packageName\<close> for a scoped name.\<close>

definition extractSkillName :: "string \<Rightarrow> string" where
  "extractSkillName packageName =
     (if startsWith packageName ''@'' then
        (case split_slash packageName of
           _ # second # _ \<Rightarrow> (if second \<noteq> [] then second else packageName)
         | _ \<Rightarrow> packageName)
      else packageName)"

definition isInNodeModules :: "string \<Rightarrow> bool" where
  "isInNodeModules projectRoot =
     (includes_str projectRoot ''/node_modules/'' \<or> basename projectRoot = ''node_modules'')"

text \<open>The \<^verbatim>\<open>while\<close> loop of \<^verbatim>\<open>detectInstallLocation\<close>; the result is \<^verbatim>\<open>projectRoot\<close> after it.\<close>

function walk :: "filesystem \<Rightarrow> string \<Rightarrow> string" where
  "walk f projectRoot =
     (if projectRoot \<noteq> dirname projectRoot then
        (let hasPackageJson = existsSync f (join projectRoot ''package.json'');
             hasGit = existsSync f (join projectRoot ''.git'')
         in if (hasPackageJson \<or> hasGit) \<and> \<not> isInNodeModules projectRoot then projectRoot
            else walk f (dirname projectRoot))
      else projectRoot)"
  by pat_completeness auto
termination
  by (relation "measure (\<lambda>(f, p). path_measure p)") (auto simp: dirname_decreases)

declare walk.simps [simp del]

text \<open>
  The check of the final path, lines 73 to 86: \<open>projectRoot\<close> is the candidate that the
  loop leaves.
\<close>

definition verify_final_path :: "env \<Rightarrow> targetPaths \<Rightarrow> string \<Rightarrow> installLocation io" where
  "verify_final_path e targetPaths projectRoot =
     (let finalIsInNodeModules = isInNodeModules projectRoot
      in if finalIsInNodeModules then
           then_io
             (emit (Console_warn
                ''Warning: Could not find project root directory, using current directory''))
             (return_io \<lparr>type = ''project'', base = join (CWD e) (project targetPaths)\<rparr>)
         else
           return_io \<lparr>type = ''project'', base = join projectRoot (project targetPaths)\<rparr>)"

text \<open>
  \<^verbatim>\<open>detectInstallLocation(targetPaths, isGlobal)\<close>; \<open>isGlobal = None\<close> is a call that
  leaves the second argument out.
\<close>

definition detectInstallLocation :: "env \<Rightarrow> targetPaths \<Rightarrow> bool option \<Rightarrow> installLocation io" where
  "detectInstallLocation e targetPaths isGlobal =
     (if isGlobal = Some True then
        return_io \<lparr>type = ''personal'', base = join (homedir e) (global targetPaths)\<rparr>
      else
        (\<lambda>w. verify_final_path e targetPaths (walk (fs w) (CWD e)) w))"

subsection \<open>\<^verbatim>\<open>install-skill.js\<close>\<close>

definition lift_res :: "'a res \<Rightarrow> 'a io" where
  "lift_res r w = (r, w)"

text \<open>\<^verbatim>\<open>JSON.parse(fs.readFileSync(p, 'utf8'))\<close>.\<close>

definition read_json :: "string \<Rightarrow> json io" where
  "read_json p w =
     (case readFileSync (fs w) p of
        Ok c \<Rightarrow> (JSON_parse c, w)
      | Throw x \<Rightarrow> (Throw x, w)
      | Timeout \<Rightarrow> (Timeout, w))"

text \<open>
  \<^verbatim>\<open>manifest.skills[k] = v\<close>, giving the manifest as \<^verbatim>\<open>JSON.stringify\<close> shows it
  afterwards. The assignment changes the object that \<^verbatim>\<open>manifest.skills\<close> refers to;
  it gets as far as that only where the manifest is an object with an own \<open>skills\<close>.
\<close>

definition assign_skill :: "json \<Rightarrow> string \<Rightarrow> json \<Rightarrow> json res" where
  "assign_skill manifest k v =
     (case get_prop (Some manifest) ''skills'' of
        Ok skills \<Rightarrow>
          (case set_prop skills k v of
             Ok skills' \<Rightarrow>
               Ok (case manifest of
                     JObj ps \<Rightarrow> JObj (AList.update ''skills'' skills' ps)
                   | _ \<Rightarrow> manifest)
           | Throw x \<Rightarrow> Throw x
           | Timeout \<Rightarrow> Timeout)
      | Throw x \<Rightarrow> Throw x
      | Timeout \<Rightarrow> Timeout)"

text \<open>Reading the manifest or starting a new one, lines 165 to 174.\<close>

definition load_manifest :: "string \<Rightarrow> json io" where
  "load_manifest manifestPath =
     (\<lambda>w. if existsSync (fs w) manifestPath then
             try_catch (read_json manifestPath)
               (\<lambda>error.
                  then_io
                    (emit (Console_warn
                       ''  Warning: Could not parse existing manifest, creating new one''))
                    (return_io (JObj [(''skills'', JObj [])]))) w
           else return_io (JObj [(''skills'', JObj [])]) w)"

text \<open>The record of lines 176 to 187; \<^verbatim>\<open>a || b\<close> is \<open>b\<close> also for an empty string \<open>a\<close>.\<close>

definition manifest_entry :: "env \<Rightarrow> string \<Rightarrow> config \<Rightarrow> string \<Rightarrow> json" where
  "manifest_entry e skillsDir cfg targetName =
     (let skillName =
            (if startsWith (config.name cfg) ''@'' then
               (case split_slash (config.name cfg) of
                  _ # second # _ \<Rightarrow> (if second \<noteq> [] then second else config.name cfg)
                | _ \<Rightarrow> config.name cfg)
             else config.name cfg)
      in JObj
           [(''version'', JStr (version cfg)),
            (''installedAt'', JStr (now e)),
            (''package'', JStr (case package cfg of
                                 Some pkg \<Rightarrow> (if pkg \<noteq> [] then pkg else config.name cfg)
                               | None \<Rightarrow> config.name cfg)),
            (''path'', JStr (join skillsDir skillName)),
            (''target'', JStr targetName)])"

text \<open>\<^verbatim>\<open>updateManifest(skillsDir, config, targetName)\<close>.\<close>

definition updateManifest :: "env \<Rightarrow> string \<Rightarrow> config \<Rightarrow> string \<Rightarrow> unit io" where
  "updateManifest e skillsDir cfg targetName =
     (let manifestPath = join skillsDir ''.skills-manifest.json''
      in bind_io (load_manifest manifestPath)
           (\<lambda>manifest.
              bind_io
                (lift_res (assign_skill manifest (config.name cfg)
                             (manifest_entry e skillsDir cfg targetName)))
                (\<lambda>manifest'.
                   fs_call (WriteFileSync manifestPath (Doc manifest'))
                     (\<lambda>f. writeFileSync f manifestPath (Doc manifest')))))"

fun for_each :: "'a list \<Rightarrow> ('a \<Rightarrow> unit io) \<Rightarrow> unit io" where
  "for_each [] body = return_io ()"
| "for_each (x # xs) body = then_io (body x) (for_each xs body)"

text \<open>
  \<^verbatim>\<open>copyDir(src, dest)\<close>. The recursion need not end (a destination inside the source
  grows under the copy), so the model counts the nesting of calls down from \<open>fuel\<close>
  and gives \<open>Timeout\<close> when it is used up.
\<close>

fun copyDir :: "nat \<Rightarrow> string \<Rightarrow> string \<Rightarrow> unit io" where
  "copyDir 0 src dest = (\<lambda>w. (Timeout, w))"
| "copyDir (Suc fuel) src dest =
     then_io (fs_call (MkdirSync dest) (\<lambda>f. mkdirSync f dest))
       (bind_io (\<lambda>w. (readdirSync (fs w) src, w))
          (\<lambda>entries.
             for_each entries
               (\<lambda>entry.
                  let srcPath = join src (fst entry);
                      destPath = join dest (fst entry)
                  in if snd entry then copyDir fuel srcPath destPath
                     else fs_call (CopyFileSync srcPath destPath)
                            (\<lambda>f. copyFileSync f srcPath destPath))))"

text \<open>The body of the \<^verbatim>\<open>forEach\<close> over \<^verbatim>\<open>Object.entries(config.files)\<close>.\<close>

definition copy_entry :: "env \<Rightarrow> nat \<Rightarrow> string \<Rightarrow> string \<times> string \<Rightarrow> unit io" where
  "copy_entry e fuel targetDir entry =
     (let source = fst entry;
          dest = snd entry;
          sourcePath = join (script_dirname e) source
      in (\<lambda>w.
            if \<not> existsSync (fs w) sourcePath then
              emit (Console_warn (''  Warning: '' @ source @ '' not found, skipping'')) w
            else
              (let destPath = join targetDir dest
               in if map_of (fs w) sourcePath = Some Dir then
                    then_io (copyDir fuel sourcePath destPath)
                      (emit (Console_log (''  Copied directory: '' @ source))) w
                  else
                    (let destDir = dirname destPath
                     in then_io
                          (if \<not> existsSync (fs w) destDir
                           then fs_call (MkdirSync destDir) (\<lambda>f. mkdirSync f destDir)
                           else return_io ())
                          (then_io
                             (fs_call (CopyFileSync sourcePath destPath)
                                (\<lambda>f. copyFileSync f sourcePath destPath))
                             (emit (Console_log (''  Copied file: '' @ source)))) w))))"

text \<open>The clean-up of the alternative path format, lines 26 to 31.\<close>

definition cleanup_alternative :: "config \<Rightarrow> string \<Rightarrow> string \<Rightarrow> unit io" where
  "cleanup_alternative cfg targetDir altTargetDir =
     (\<lambda>w. if existsSync (fs w) altTargetDir \<and> altTargetDir \<noteq> targetDir then
             then_io (emit (Console_log ''  Cleaning up alternative path format...''))
               (then_io (fs_call (RmSync altTargetDir) (\<lambda>f. Ok (rmSync f altTargetDir)))
                  (emit (Console_log (''  Removed directory: '' @ config.name cfg)))) w
           else return_io () w)"

text \<open>Creating the target directory and copying \<^verbatim>\<open>SKILL.md\<close> and the other files, lines 33 to 70.\<close>

definition copy_payload :: "env \<Rightarrow> nat \<Rightarrow> config \<Rightarrow> string \<Rightarrow> unit io" where
  "copy_payload e fuel cfg targetDir =
     then_io
       (\<lambda>w. if \<not> existsSync (fs w) targetDir
             then fs_call (MkdirSync targetDir) (\<lambda>f. mkdirSync f targetDir) w
             else return_io () w)
       (let skillMdSource = join (script_dirname e) ''SKILL.md''
        in then_io
             (\<lambda>w. if \<not> existsSync (fs w) skillMdSource
                   then throw_io (Error ''SKILL.md is required but not found'') w
                   else return_io () w)
             (then_io
                (fs_call (CopyFileSync skillMdSource (join targetDir ''SKILL.md''))
                   (\<lambda>f. copyFileSync f skillMdSource (join targetDir ''SKILL.md'')))
                (then_io (emit (Console_log ''  Copied SKILL.md''))
                   (case files cfg of
                      Some entries \<Rightarrow>
                        for_each (Object_entries entries) (copy_entry e fuel targetDir)
                    | None \<Rightarrow> return_io ()))))"

text \<open>The postinstall hook, lines 75 to 88: a failing command is only warned about.\<close>

definition run_postinstall :: "env \<Rightarrow> config \<Rightarrow> string \<Rightarrow> unit io" where
  "run_postinstall e cfg targetDir =
     (case hooks cfg of
        None \<Rightarrow> return_io ()
      | Some h \<Rightarrow>
          (case postinstall h of
             None \<Rightarrow> return_io ()
           | Some cmd \<Rightarrow>
               if cmd = [] then return_io ()
               else
                 then_io (emit (Console_log ''  Running postinstall hook...''))
                   (\<lambda>w. let r = shell e cmd targetDir (fs w);
                            w1 = w\<lparr>fs := snd r, trace := trace w @ [ExecSync cmd targetDir]\<rparr>
                        in if fst r then emit (Console_log ''  Postinstall hook completed'') w1
                           else emit (Console_warn ''  Warning: postinstall hook failed'') w1)))"

text \<open>
  \<^verbatim>\<open>installToTarget(target, config)\<close>. Line 13 calls \<^verbatim>\<open>detectInstallLocation\<close> with
  one argument.
\<close>

definition installToTarget :: "env \<Rightarrow> nat \<Rightarrow> resolvedTarget \<Rightarrow> config \<Rightarrow> string io" where
  "installToTarget e fuel target cfg =
     then_io (emit (Console_log (''Installing to '' @ resolvedTarget.name target @ ''...'')))
       (bind_io (detectInstallLocation e (resolvedTarget.paths target) None)
          (\<lambda>location.
             let skillName = extractSkillName (config.name cfg);
                 targetDir = join (base location) skillName;
                 altTargetDir = join (base location) (config.name cfg)
             in then_io (emit (Console_log (''  Type: '' @ type location)))
                  (then_io (emit (Console_log (''  Directory: '' @ targetDir)))
                     (then_io (cleanup_alternative cfg targetDir altTargetDir)
                        (then_io (copy_payload e fuel cfg targetDir)
                           (then_io
                              (updateManifest e (base location) cfg (resolvedTarget.name target))
                              (then_io (run_postinstall e cfg targetDir)
                                 (then_io
                                    (emit (Console_log
                                       (''  Installed to '' @ resolvedTarget.name target)))
                                    (return_io targetDir)))))))))"

subsection \<open>\<^verbatim>\<open>uninstall-skill.js\<close>\<close>

text \<open>The manifest update of the uninstaller, guarded and inside \<^verbatim>\<open>try\<close>.\<close>

definition remove_from_manifest :: "config \<Rightarrow> string \<Rightarrow> unit io" where
  "remove_from_manifest cfg manifestPath =
     (\<lambda>w. if existsSync (fs w) manifestPath then
             try_catch
               (bind_io (read_json manifestPath)
                  (\<lambda>manifest.
                     bind_io (lift_res (get_prop (Some manifest) ''skills''))
                       (\<lambda>skills.
                          case skills of
                            None \<Rightarrow> return_io ()
                          | Some s \<Rightarrow>
                              if truthy s \<and> member_truthy s (config.name cfg) then
                                (let manifest' =
                                       (case manifest of
                                          JObj ps \<Rightarrow>
                                            JObj (AList.update ''skills''
                                                    (delete_prop s (config.name cfg)) ps)
                                        | _ \<Rightarrow> manifest)
                                 in then_io
                                      (fs_call (WriteFileSync manifestPath (Doc manifest'))
                                         (\<lambda>f. writeFileSync f manifestPath (Doc manifest')))
                                      (emit (Console_log ''  Updated manifest'')))
                              else return_io ())))
               (\<lambda>error. emit (Console_warn ''  Warning: Could not update manifest:'')) w
           else return_io () w)"

text \<open>
  Removing the skill directory under both naming conventions, lines 109 to 132; the
  result is the variable \<^verbatim>\<open>removed\<close>.
\<close>

definition remove_directories :: "config \<Rightarrow> string \<Rightarrow> bool io" where
  "remove_directories cfg locationBase =
     (let skillName = extractSkillName (config.name cfg);
          skillNameTargetDir = join locationBase skillName;
          fullPackageNameTargetDir = join locationBase (config.name cfg)
      in bind_io
           (\<lambda>w. if existsSync (fs w) skillNameTargetDir then
                   then_io
                     (fs_call (RmSync skillNameTargetDir) (\<lambda>f. Ok (rmSync f skillNameTargetDir)))
                     (then_io (emit (Console_log (''  Removed skill directory: '' @ skillName)))
                        (return_io True)) w
                 else return_io False w)
           (\<lambda>removed.
              (\<lambda>w. if existsSync (fs w) fullPackageNameTargetDir
                       \<and> fullPackageNameTargetDir \<noteq> skillNameTargetDir then
                      then_io
                        (fs_call (RmSync fullPackageNameTargetDir)
                           (\<lambda>f. Ok (rmSync f fullPackageNameTargetDir)))
                        (then_io
                           (emit (Console_log (''  Removed skill directory: '' @ config.name cfg)))
                           (return_io True)) w
                    else return_io removed w)))"

text \<open>\<^verbatim>\<open>uninstallFromTarget(target, config)\<close>.\<close>

definition uninstallFromTarget :: "env \<Rightarrow> resolvedTarget \<Rightarrow> config \<Rightarrow> bool io" where
  "uninstallFromTarget e target cfg =
     then_io (emit (Console_log (''Uninstalling from '' @ resolvedTarget.name target @ ''...'')))
       (let isGlobal = (npm_config_global e = Some ''true'')
        in bind_io (detectInstallLocation e (resolvedTarget.paths target) (Some isGlobal))
             (\<lambda>location.
                bind_io (remove_directories cfg (base location))
                  (\<lambda>removed.
                     then_io
                       (remove_from_manifest cfg (join (base location) ''.skills-manifest.json''))
                       (if removed then
                          then_io
                            (emit (Console_log
                               (''  Uninstalled from '' @ resolvedTarget.name target)))
                            (return_io True)
                        else
                          then_io
                            (emit (Console_log
                               (''  Skill was not installed in '' @ resolvedTarget.name target)))
                            (return_io False)))))"

subsection \<open>Example configurations and worlds\<close>

definition example_paths :: targetPaths where
  "example_paths = \<lparr>global = ''.claude/skills'', project = ''.claude/skills''\<rparr>"

definition example_config :: config where
  "example_config =
     \<lparr>config.name = ''@scope/pkg'', version = ''1.0.0'', package = None, targets = None,
      files = None, hooks = None\<rparr>"

text \<open>
  A configuration that declares four targets, two of them under names that are array
  indices, and disables the third.
\<close>

definition integer_named_targets :: "(string \<times> targetSpec) list" where
  "integer_named_targets =
     [(''cursor'', \<lparr>enabled = True, paths = example_paths\<rparr>),
      (''10'', \<lparr>enabled = True, paths = example_paths\<rparr>),
      (''windsurf'', \<lparr>enabled = False, paths = example_paths\<rparr>),
      (''2'', \<lparr>enabled = True, paths = example_paths\<rparr>)]"

definition integer_named_config :: config where
  "integer_named_config = example_config\<lparr>targets := Some integer_named_targets\<rparr>"

definition default_target :: resolvedTarget where
  "default_target = \<lparr>resolvedTarget.name = ''claude-code'', paths = example_paths\<rparr>"

text \<open>
  A global install (\<^verbatim>\<open>npm install -g\<close>) started from the project \<^verbatim>\<open>/repo\<close>; the
  package is unpacked below \<^verbatim>\<open>/usr/lib/node_modules\<close>.
\<close>

definition global_install_env :: env where
  "global_install_env =
     \<lparr>INIT_CWD = Some ''/repo'', process_cwd = ''/usr/lib/node_modules/@scope/pkg'',
      homedir = ''/home/u'', npm_config_global = Some ''true'',
      script_dirname = ''/usr/lib/node_modules/@scope/pkg'', now = ''2024-01-01T00:00:00.000Z'',
      shell = (\<lambda>cmd cwd f. (True, f))\<rparr>"

text \<open>The package unpacked, a project at \<^verbatim>\<open>/repo\<close>, nothing installed yet.\<close>

definition package_fs :: filesystem where
  "package_fs =
     [(''/'', Dir), (''/repo'', Dir), (''/repo/package.json'', File (Doc (JObj []))),
      (''/usr'', Dir), (''/usr/lib'', Dir), (''/usr/lib/node_modules'', Dir),
      (''/usr/lib/node_modules/@scope'', Dir), (''/usr/lib/node_modules/@scope/pkg'', Dir),
      (''/usr/lib/node_modules/@scope/pkg/SKILL.md'', File (Raw ''# skill'')),
      (''/home'', Dir), (''/home/u'', Dir)]"

definition clean_world :: world where
  "clean_world = \<lparr>fs = package_fs, trace = []\<rparr>"

text \<open>The skill installed below the home directory.\<close>

definition installed_world :: world where
  "installed_world =
     \<lparr>fs = package_fs @
        [(''/home/u/.claude'', Dir), (''/home/u/.claude/skills'', Dir),
         (''/home/u/.claude/skills/pkg'', Dir),
         (''/home/u/.claude/skills/pkg/SKILL.md'', File (Raw ''# skill'')),
         (''/home/u/.claude/skills/.skills-manifest.json'',
          File (Doc (JObj [(''skills'', JObj [(''@scope/pkg'', JObj [(''version'', JStr ''1.0.0'')])])])))],
      trace = []\<rparr>"

text \<open>A monorepo: the version-control marker at the top, a package manifest in the sub-project.\<close>

definition monorepo_world :: world where
  "monorepo_world =
     \<lparr>fs = [(''/'', Dir), (''/repo'', Dir), (''/repo/.git'', Dir), (''/repo/sub'', Dir),
            (''/repo/sub/package.json'', File (Doc (JObj []))),
            (''/repo/sub/node_modules'', Dir), (''/repo/sub/node_modules/pkg'', Dir)],
      trace = []\<rparr>"

definition nested_env :: env where
  "nested_env = global_install_env\<lparr>INIT_CWD := None,
     process_cwd := ''/repo/sub/node_modules/pkg'', npm_config_global := None\<rparr>"

text \<open>The same tree with the version-control marker as its only marker.\<close>

definition plain_repo_world :: world where
  "plain_repo_world =
     \<lparr>fs = [(''/'', Dir), (''/repo'', Dir), (''/repo/.git'', Dir), (''/repo/sub'', Dir),
            (''/repo/sub/node_modules'', Dir), (''/repo/sub/node_modules/pkg'', Dir)],
      trace = []\<rparr>"

text \<open>No marker anywhere above a working directory inside a dependency cache.\<close>

definition bare_world :: world where
  "bare_world =
     \<lparr>fs = [(''/'', Dir), (''/work'', Dir), (''/work/node_modules'', Dir),
            (''/work/node_modules/pkg'', Dir)],
      trace = []\<rparr>"

definition bare_env :: env where
  "bare_env = global_install_env\<lparr>INIT_CWD := None,
     process_cwd := ''/work/node_modules/pkg'', npm_config_global := None\<rparr>"

text \<open>A configuration under the name of the prototype accessor.\<close>

definition proto_named_config :: config where
  "proto_named_config = example_config\<lparr>config.name := ''__proto__''\<rparr>"

text \<open>A configuration whose \<open>package\<close> field is the empty string.\<close>

definition empty_package_config :: config where
  "empty_package_config = example_config\<lparr>package := Some []\<rparr>"

text \<open>A manifest with a second skill and a property of its own next to \<open>skills\<close>.\<close>

definition shared_manifest_world :: world where
  "shared_manifest_world =
     \<lparr>fs = package_fs @
        [(''/home/u/.claude'', Dir), (''/home/u/.claude/skills'', Dir),
         (''/home/u/.claude/skills/.skills-manifest.json'',
          File (Doc (JObj
            [(''schema'', JNum 1),
             (''skills'', JObj [(''other-skill'', JObj [(''version'', JStr ''0.1.0'')]),
                               (''@scope/pkg'', JObj [(''version'', JStr ''0.9.0'')])])])))],
      trace = []\<rparr>"

text \<open>A manifest whose \<open>skills\<close> is a number, and one without \<open>skills\<close>.\<close>

definition numeric_skills_world :: world where
  "numeric_skills_world =
     \<lparr>fs = package_fs @
        [(''/repo/.claude'', Dir), (''/repo/.claude/skills'', Dir),
         (''/repo/.claude/skills/.skills-manifest.json'', File (Doc (JObj [(''skills'', JNum 5)])))],
      trace = []\<rparr>"

definition wrong_shape_world :: world where
  "wrong_shape_world =
     \<lparr>fs = package_fs @
        [(''/repo/.claude'', Dir), (''/repo/.claude/skills'', Dir),
         (''/repo/.claude/skills/.skills-manifest.json'', File (Doc (JObj [(''other'', JNum 1)])))],
      trace = []\<rparr>"

text \<open>A skill installed under the older naming convention only.\<close>

definition legacy_world :: world where
  "legacy_world =
     \<lparr>fs = package_fs @
        [(''/repo/.claude'', Dir), (''/repo/.claude/skills'', Dir),
         (''/repo/.claude/skills/@scope'', Dir), (''/repo/.claude/skills/@scope/pkg'', Dir),
         (''/repo/.claude/skills/@scope/pkg/SKILL.md'', File (Raw ''# old skill''))],
      trace = []\<rparr>"

subsection \<open>The specification's wording, and predicates on traces\<close>

text \<open>
  The resolver as the specification words it: the entries whose \<open>enabled\<close> is \<open>true\<close>,
  each as name and paths, in the order of their declaration.
\<close>

definition spec_enabled_targets :: "(string \<times> targetSpec) list \<Rightarrow> resolvedTarget list" where
  "spec_enabled_targets ts =
     map (\<lambda>(n, target). \<lparr>resolvedTarget.name = n, paths = targetSpec.paths target\<rparr>)
       (filter (\<lambda>(_, target). enabled target = True) ts)"

text \<open>
  The manifest record as the specification words it: \<^verbatim>\<open>config.package ?? config.name\<close>
  falls back to the name only for an absent \<open>package\<close>.
\<close>

definition spec_manifest_entry :: "env \<Rightarrow> config \<Rightarrow> string \<Rightarrow> string \<Rightarrow> json" where
  "spec_manifest_entry e cfg targetName installedPath =
     JObj [(''version'', JStr (version cfg)),
           (''installedAt'', JStr (now e)),
           (''package'', JStr (case package cfg of Some pkg \<Rightarrow> pkg | None \<Rightarrow> config.name cfg)),
           (''path'', JStr installedPath),
           (''target'', JStr targetName)]"

text \<open>A manifest value with an object-valued \<open>skills\<close> property (arrays are objects).\<close>

fun has_object_skills :: "json \<Rightarrow> bool" where
  "has_object_skills (JObj ps) =
     (case map_of ps ''skills'' of Some (JObj sk) \<Rightarrow> True | Some (JArr xs) \<Rightarrow> True | _ \<Rightarrow> False)"
| "has_object_skills m = False"

text \<open>Numbers, strings and booleans.\<close>

fun is_primitive :: "json \<Rightarrow> bool" where
  "is_primitive (JBool b) = True"
| "is_primitive (JNum n) = True"
| "is_primitive (JStr s) = True"
| "is_primitive v = False"

text \<open>The events that remove from the file system.\<close>

fun is_rm :: "event \<Rightarrow> bool" where
  "is_rm (RmSync p) = True"
| "is_rm ev = False"

text \<open>An action that only appends to the trace, and nothing that removes.\<close>

definition no_removal :: "'a io \<Rightarrow> bool" where
  "no_removal m \<longleftrightarrow>
     (\<forall>w. \<exists>evs. trace (snd (m w)) = trace w @ evs \<and> list_all (\<lambda>ev. \<not> is_rm ev) evs)"

section \<open>Properties\<close>

subsection \<open>Auxiliary facts\<close>

lemma walk_root: "p = dirname p \<Longrightarrow> walk f p = p"
  by (subst walk.simps) simp

lemma walk_skip: "p \<noteq> dirname p \<Longrightarrow> isInNodeModules p \<Longrightarrow> walk f p = walk f (dirname p)"
  by (subst walk.simps) (simp add: Let_def)

lemma walk_stop:
  "p \<noteq> dirname p \<Longrightarrow> \<not> isInNodeModules p \<Longrightarrow>
   existsSync f (join p ''package.json'') \<or> existsSync f (join p ''.git'') \<Longrightarrow> walk f p = p"
  by (subst walk.simps) (simp add: Let_def)

lemma walk_up:
  "p \<noteq> dirname p \<Longrightarrow> \<not> existsSync f (join p ''package.json'') \<Longrightarrow>
   \<not> existsSync f (join p ''.git'') \<Longrightarrow> walk f p = walk f (dirname p)"
  by (subst walk.simps) (simp add: Let_def)

lemma isInNodeModules_fixed: "p = dirname p \<Longrightarrow> \<not> isInNodeModules p"
proof -
  assume "p = dirname p"
  then have "p = ''/'' \<or> p = ''.''" by (rule dirname_fixed)
  then show ?thesis by (auto simp: isInNodeModules_def basename_def)
qed

lemma walk_not_in_node_modules: "\<not> isInNodeModules (walk f p)"
proof (induction f p rule: walk.induct)
  case (1 f projectRoot)
  show ?case
  proof (cases "projectRoot = dirname projectRoot")
    case True
    then show ?thesis by (simp add: walk_root isInNodeModules_fixed)
  next
    case False
    show ?thesis
    proof (cases "(existsSync f (join projectRoot ''package.json'') \<or>
                   existsSync f (join projectRoot ''.git'')) \<and> \<not> isInNodeModules projectRoot")
      case True
      with False show ?thesis by (simp add: walk_stop)
    next
      case F: False
      with False have "walk f projectRoot = walk f (dirname projectRoot)"
        by (subst walk.simps) (auto simp: Let_def)
      moreover from False F have "\<not> isInNodeModules (walk f (dirname projectRoot))"
        by (intro "1.IH") auto
      ultimately show ?thesis by simp
    qed
  qed
qed

lemma detect_project:
  "isGlobal \<noteq> Some True \<Longrightarrow>
   detectInstallLocation e tp isGlobal w =
     (Ok \<lparr>type = ''project'', base = join (walk (fs w) (CWD e)) (project tp)\<rparr>, w)"
  by (simp add: detectInstallLocation_def verify_final_path_def Let_def
      walk_not_in_node_modules return_io_def)

lemma detect_global:
  "detectInstallLocation e tp (Some True) w =
     (Ok \<lparr>type = ''personal'', base = join (homedir e) (global tp)\<rparr>, w)"
  by (simp add: detectInstallLocation_def return_io_def)

lemma bind_emit [simp]: "bind_io (emit ev) k w = k () (w\<lparr>trace := trace w @ [ev]\<rparr>)"
  by (simp add: bind_io_def emit_def)

lemma then_emit [simp]: "then_io (emit ev) k w = k (w\<lparr>trace := trace w @ [ev]\<rparr>)"
  by (simp add: then_io_def)

lemma bind_return [simp]: "bind_io (return_io x) k w = k x w"
  by (simp add: bind_io_def return_io_def)

lemma then_return [simp]: "then_io (return_io x) k w = k w"
  by (simp add: then_io_def)

lemma bind_rm [simp]:
  "bind_io (fs_call (RmSync p) (\<lambda>f. Ok (rmSync f p))) k w =
     k () (w\<lparr>trace := trace w @ [RmSync p], fs := rmSync (fs w) p\<rparr>)"
  by (simp add: bind_io_def fs_call_def Let_def)

lemma then_rm [simp]:
  "then_io (fs_call (RmSync p) (\<lambda>f. Ok (rmSync f p))) k w =
     k (w\<lparr>trace := trace w @ [RmSync p], fs := rmSync (fs w) p\<rparr>)"
  by (simp add: then_io_def)

lemma map_of_rmSync:
  "map_of (rmSync f p) q = (if q = p \<or> under p q then None else map_of f q)"
  by (induction f) (auto simp: rmSync_def)

lemma existsSync_rmSync:
  "existsSync (rmSync f p) q \<longleftrightarrow> existsSync f q \<and> q \<noteq> p \<and> \<not> under p q"
  by (simp add: existsSync_def map_of_rmSync)

lemma writeFileSync_existing:
  "map_of f p = Some (File old) \<Longrightarrow> writeFileSync f p c = Ok (AList.update p (File c) f)"
  by (simp add: writeFileSync_def)

lemma existsSync_update_existing:
  "existsSync f p \<Longrightarrow> existsSync (AList.update p v f) q = existsSync f q"
  by (auto simp: existsSync_def update_conv')

text \<open>The manifest step of the uninstaller never throws and neither creates nor removes a path.\<close>

lemma remove_from_manifest_ok:
  "\<exists>w'. remove_from_manifest cfg mp w = (Ok (), w') \<and>
        (\<forall>q. existsSync (fs w') q = existsSync (fs w) q)"
proof (cases "map_of (fs w) mp")
  case None
  then show ?thesis by (simp add: remove_from_manifest_def existsSync_def return_io_def)
next
  case (Some n)
  show ?thesis
  proof (cases n)
    case Dir
    with Some show ?thesis
      by (simp add: remove_from_manifest_def existsSync_def try_catch_def bind_io_def
          read_json_def readFileSync_def emit_def)
  next
    case (File c)
    show ?thesis
    proof (cases c)
      case (Raw t)
      with Some File show ?thesis
        by (simp add: remove_from_manifest_def existsSync_def try_catch_def bind_io_def
            read_json_def readFileSync_def emit_def)
    next
      case (Doc m)
      have ex: "existsSync (fs w) mp" using Some by (simp add: existsSync_def)
      have wr: "\<And>c'. writeFileSync (fs w) mp c' = Ok (AList.update mp (File c') (fs w))"
        using Some File by (simp add: writeFileSync_existing)
      show ?thesis
      proof (cases "get_prop (Some m) ''skills''")
        case (Ok skills)
        show ?thesis
        proof (cases skills)
          case None
          with Some File Doc Ok show ?thesis
            by (simp add: remove_from_manifest_def existsSync_def try_catch_def bind_io_def
                read_json_def readFileSync_def lift_res_def return_io_def)
        next
          case (Some s)
          with \<open>map_of (fs w) mp = Some n\<close> File Doc Ok ex wr show ?thesis
            by (simp add: remove_from_manifest_def try_catch_def bind_io_def then_io_def
                read_json_def readFileSync_def lift_res_def return_io_def fs_call_def emit_def
                Let_def existsSync_update_existing)
        qed
      next
        case (Throw x)
        with Some File Doc show ?thesis
          by (simp add: remove_from_manifest_def existsSync_def try_catch_def bind_io_def
              read_json_def readFileSync_def lift_res_def emit_def)
      next
        case Timeout
        then show ?thesis by (cases m) simp_all
      qed
    qed
  qed
qed

lemma bind_detect_project [simp]:
  "isGlobal \<noteq> Some True \<Longrightarrow>
   bind_io (detectInstallLocation e tp isGlobal) k w =
     k \<lparr>type = ''project'', base = join (walk (fs w) (CWD e)) (project tp)\<rparr> w"
  by (simp add: bind_io_def detect_project)

lemma bind_detect_global [simp]:
  "bind_io (detectInstallLocation e tp (Some True)) k w =
     k \<lparr>type = ''personal'', base = join (homedir e) (global tp)\<rparr> w"
  by (simp add: bind_io_def detect_global)

lemma remove_two:
  "\<exists>w1. bind_io
          (\<lambda>w. if existsSync (fs w) da then
                  then_io (fs_call (RmSync da) (\<lambda>f. Ok (rmSync f da)))
                    (then_io (emit eva) (return_io True)) w
                else return_io False w)
          (\<lambda>removed.
             (\<lambda>w. if existsSync (fs w) db \<and> db \<noteq> da then
                     then_io (fs_call (RmSync db) (\<lambda>f. Ok (rmSync f db)))
                       (then_io (emit evb) (return_io True)) w
                   else return_io removed w)) w
        = (Ok (existsSync (fs w) da \<or> existsSync (fs w) db), w1)
        \<and> \<not> existsSync (fs w1) da \<and> \<not> existsSync (fs w1) db"
proof (cases "existsSync (fs w) da")
  case True
  then show ?thesis
    by (auto simp add: bind_io_def then_io_def fs_call_def emit_def return_io_def
        existsSync_rmSync Let_def)
next
  case False
  then show ?thesis
    by (auto simp add: bind_io_def then_io_def fs_call_def emit_def return_io_def
        existsSync_rmSync Let_def)
qed

lemma remove_directories_result:
  "\<exists>w1. remove_directories cfg b w =
          (Ok (existsSync (fs w) (join b (extractSkillName (config.name cfg)))
               \<or> existsSync (fs w) (join b (config.name cfg))), w1)
        \<and> \<not> existsSync (fs w1) (join b (extractSkillName (config.name cfg)))
        \<and> \<not> existsSync (fs w1) (join b (config.name cfg))"
  unfolding remove_directories_def Let_def by (rule remove_two)

lemma uninstall_after_removal:
  assumes "\<not> existsSync (fs w1) da" "\<not> existsSync (fs w1) db"
  shows "\<exists>w'. then_io (remove_from_manifest cfg mp)
                (if removed then then_io (emit eva) (return_io True)
                 else then_io (emit evb) (return_io False)) w1 = (Ok removed, w')
              \<and> \<not> existsSync (fs w') da \<and> \<not> existsSync (fs w') db"
proof -
  obtain w2 where w2: "remove_from_manifest cfg mp w1 = (Ok (), w2)"
    and same: "\<forall>q. existsSync (fs w2) q = existsSync (fs w1) q"
    using remove_from_manifest_ok by blast
  with assms show ?thesis
    by (cases removed) (simp_all add: then_io_def bind_io_def emit_def return_io_def)
qed

lemma uninstall_body:
  "\<exists>w'. bind_io (remove_directories cfg b)
            (\<lambda>removed. then_io (remove_from_manifest cfg mp)
                (if removed then then_io (emit eva) (return_io True)
                 else then_io (emit evb) (return_io False))) w =
          (Ok (existsSync (fs w) (join b (extractSkillName (config.name cfg)))
               \<or> existsSync (fs w) (join b (config.name cfg))), w')
        \<and> \<not> existsSync (fs w') (join b (extractSkillName (config.name cfg)))
        \<and> \<not> existsSync (fs w') (join b (config.name cfg))"
proof -
  obtain w1 where r: "remove_directories cfg b w =
          (Ok (existsSync (fs w) (join b (extractSkillName (config.name cfg)))
               \<or> existsSync (fs w) (join b (config.name cfg))), w1)"
    and gone: "\<not> existsSync (fs w1) (join b (extractSkillName (config.name cfg)))"
      "\<not> existsSync (fs w1) (join b (config.name cfg))"
    using remove_directories_result by blast
  from uninstall_after_removal [OF gone] r show ?thesis
    by (simp add: bind_io_def)
qed

lemma detect_cases:
  assumes "fst (detectInstallLocation e tp g w) = Ok location"
  shows "detectInstallLocation e tp g w = (Ok location, w)"
  using assms
  by (cases "g = Some True") (simp_all add: detect_project detect_global)

lemma bind_detect:
  assumes "fst (detectInstallLocation e tp g w) = Ok location"
  shows "bind_io (detectInstallLocation e tp g) k w = k location w"
  using detect_cases [OF assms] by (simp add: bind_io_def)

lemma detect_total: "\<exists>location. fst (detectInstallLocation e tp g w) = Ok location"
  by (cases "g = Some True") (simp_all add: detect_project detect_global)

lemma dn1: "dirname ''/repo/sub/node_modules/pkg'' = ''/repo/sub/node_modules''" by (simp add: dirname_def)
lemma dn2: "dirname ''/repo/sub/node_modules'' = ''/repo/sub''" by (simp add: dirname_def)
lemma dn3: "dirname ''/repo/sub'' = ''/repo''" by (simp add: dirname_def)
lemma dn4: "dirname ''/repo'' = ''/''" by (simp add: dirname_def)
lemma nm1: "isInNodeModules ''/repo/sub/node_modules/pkg''" by (simp add: isInNodeModules_def)
lemma nm2: "isInNodeModules ''/repo/sub/node_modules''" by (simp add: isInNodeModules_def basename_def)
lemma nm3: "\<not> isInNodeModules ''/repo/sub''" by (simp add: isInNodeModules_def basename_def)
lemma nm4: "\<not> isInNodeModules ''/repo''" by (simp add: isInNodeModules_def basename_def)
lemma jn: "join ''/repo'' ''.git'' = ''/repo/.git''" "join ''/repo/sub'' ''.git'' = ''/repo/sub/.git''"
  "join ''/repo/sub'' ''package.json'' = ''/repo/sub/package.json''"
  by (simp_all add: join_def normalize_def normalizeString_def normalize_step_def)

lemma walk_repo:
  assumes "existsSync f ''/repo/.git''"
  shows "walk f ''/repo/sub/node_modules/pkg'' =
     (if existsSync f ''/repo/sub/package.json'' \<or> existsSync f ''/repo/sub/.git''
      then ''/repo/sub'' else ''/repo'')"
proof -
  have "walk f ''/repo/sub/node_modules/pkg'' = walk f ''/repo/sub/node_modules''"
    using walk_skip [of "''/repo/sub/node_modules/pkg''" f] by (simp add: dn1 nm1)
  also have "\<dots> = walk f ''/repo/sub''"
    using walk_skip [of "''/repo/sub/node_modules''" f] by (simp add: dn2 nm2)
  also have "\<dots> = (if existsSync f ''/repo/sub/package.json'' \<or> existsSync f ''/repo/sub/.git''
      then ''/repo/sub'' else ''/repo'')"
  proof (cases "existsSync f ''/repo/sub/package.json'' \<or> existsSync f ''/repo/sub/.git''")
    case True
    then show ?thesis using walk_stop [of "''/repo/sub''" f] by (simp add: dn3 nm3 jn)
  next
    case False
    then have "walk f ''/repo/sub'' = walk f ''/repo''"
      using walk_up [of "''/repo/sub''" f] by (simp add: dn3 jn)
    also have "\<dots> = ''/repo''"
      using assms walk_stop [of "''/repo''" f] by (simp add: dn4 nm4 jn)
    finally show ?thesis using False by simp
  qed
  finally show ?thesis .
qed

lemma detectInstallLocation_never_warns:
  "snd (detectInstallLocation e targetPaths isGlobal w) = w"
  by (cases "isGlobal = Some True") (simp_all add: detect_project detect_global)

lemma installToTarget_ignores_toggle:
  "installToTarget (e\<lparr>npm_config_global := g\<rparr>) fuel target cfg = installToTarget e fuel target cfg"
proof -
  have 1: "CWD (e\<lparr>npm_config_global := g\<rparr>) = CWD e" by (simp add: CWD_def split: option.splits)
  have 2: "\<And>tp i. detectInstallLocation (e\<lparr>npm_config_global := g\<rparr>) tp i = detectInstallLocation e tp i"
    by (simp add: detectInstallLocation_def verify_final_path_def 1 cong del: if_weak_cong)
  have 3: "\<And>d. copy_entry (e\<lparr>npm_config_global := g\<rparr>) fuel d = copy_entry e fuel d"
    by (rule ext) (simp add: copy_entry_def)
  have 4: "\<And>d. copy_payload (e\<lparr>npm_config_global := g\<rparr>) fuel cfg d = copy_payload e fuel cfg d"
    by (simp add: copy_payload_def 3 cong: option.case_cong)
  have 5: "\<And>d t. updateManifest (e\<lparr>npm_config_global := g\<rparr>) d cfg t = updateManifest e d cfg t"
    by (simp add: updateManifest_def manifest_entry_def)
  have 6: "\<And>d. run_postinstall (e\<lparr>npm_config_global := g\<rparr>) cfg d = run_postinstall e cfg d"
    by (simp add: run_postinstall_def split: option.splits)
  show ?thesis by (simp add: installToTarget_def 2 4 5 6)
qed

lemma map_of_insert_index:
  "map_of ps k = None \<Longrightarrow>
   map_of (insert_index i k v ps) k' = (if k' = k then Some v else map_of ps k')"
  by (induction ps) (auto split: option.splits if_splits)

lemma map_of_put_member_other: "k' \<noteq> k \<Longrightarrow> map_of (put_member k v ps) k' = map_of ps k'"
  by (auto simp: put_member_def update_conv' map_of_insert_index map_add_def split: option.splits)

lemma map_of_put_member_same:
  "k \<noteq> ''__proto__'' \<or> map_of ps k \<noteq> None \<Longrightarrow> map_of (put_member k v ps) k = Some v"
  by (auto simp: put_member_def update_conv' map_of_insert_index map_add_def split: option.splits)

lemma update_new_key: "k \<notin> fst ` set al \<Longrightarrow> AList.update k v al = al @ [(k, v)]"
  by (induction al) auto

lemma foldl_update_distinct:
  "distinct (map fst (acc @ ms)) \<Longrightarrow>
   foldl (\<lambda>obj m. AList.update (fst m) (snd m) obj) acc ms = acc @ ms"
proof (induction ms arbitrary: acc)
  case Nil
  then show ?case by simp
next
  case (Cons m ms)
  from Cons.prems have new: "fst m \<notin> fst ` set acc" by auto
  have "AList.update (fst m) (snd m) acc = acc @ [m]"
    using update_new_key [OF new, of "snd m"] by simp
  moreover from Cons.prems have "distinct (map fst ((acc @ [m]) @ ms))" by simp
  ultimately show ?case using Cons.IH [of "acc @ [m]"] by simp
qed

lemma parse_members_distinct: "distinct (map fst ms) \<Longrightarrow> parse_members ms = ms"
  using foldl_update_distinct [of "[]" ms] by (simp add: parse_members_def)

lemma manifest_entry_path:
  "manifest_entry e skillsDir cfg targetName =
     JObj [(''version'', JStr (version cfg)),
           (''installedAt'', JStr (now e)),
           (''package'', JStr (case package cfg of
                                Some pkg \<Rightarrow> (if pkg \<noteq> [] then pkg else config.name cfg)
                              | None \<Rightarrow> config.name cfg)),
           (''path'', JStr (join skillsDir (extractSkillName (config.name cfg)))),
           (''target'', JStr targetName)]"
  by (simp add: manifest_entry_def extractSkillName_def Let_def)

lemma load_manifest_doc:
  "map_of (fs w) mp = Some (File (Doc m)) \<Longrightarrow> load_manifest mp w = (Ok m, w)"
  by (simp add: load_manifest_def existsSync_def try_catch_def read_json_def readFileSync_def)

lemma load_manifest_absent:
  "map_of (fs w) mp = None \<Longrightarrow> load_manifest mp w = (Ok (JObj [(''skills'', JObj [])]), w)"
  by (simp add: load_manifest_def existsSync_def return_io_def)

lemma load_manifest_unreadable:
  "map_of (fs w) mp = Some Dir \<or> map_of (fs w) mp = Some (File (Raw t)) \<Longrightarrow>
   load_manifest mp w =
     (Ok (JObj [(''skills'', JObj [])]),
      w\<lparr>trace := trace w @
        [Console_warn ''  Warning: Could not parse existing manifest, creating new one'']\<rparr>)"
  by (auto simp add: load_manifest_def existsSync_def try_catch_def read_json_def readFileSync_def
      return_io_def)

lemma load_manifest_cases:
  obtains (absent) "map_of (fs w) mp = None"
      "load_manifest mp w = (Ok (JObj [(''skills'', JObj [])]), w)"
  | (doc) m where "map_of (fs w) mp = Some (File (Doc m))" "load_manifest mp w = (Ok m, w)"
  | (unreadable) "map_of (fs w) mp \<noteq> None"
      "load_manifest mp w =
         (Ok (JObj [(''skills'', JObj [])]),
          w\<lparr>trace := trace w @
            [Console_warn ''  Warning: Could not parse existing manifest, creating new one'']\<rparr>)"
proof (cases "map_of (fs w) mp")
  case None
  then show ?thesis using absent load_manifest_absent by blast
next
  case (Some n)
  show ?thesis
  proof (cases n)
    case Dir
    with Some show ?thesis using unreadable load_manifest_unreadable [of w mp] by simp
  next
    case (File c)
    show ?thesis
    proof (cases c)
      case (Raw t)
      with Some File show ?thesis using unreadable load_manifest_unreadable [of w mp t] by simp
    next
      case (Doc m)
      with Some File show ?thesis using doc load_manifest_doc [of w mp m] by simp
    qed
  qed
qed

lemma load_manifest_snd_fs: "fs (snd (load_manifest mp w)) = fs w"
  by (rule load_manifest_cases [where w = w and mp = mp]) simp_all

lemma load_manifest_total: "\<exists>m. fst (load_manifest mp w) = Ok m"
  by (rule load_manifest_cases [where w = w and mp = mp]) simp_all

lemma assign_skill_object:
  "map_of ps ''skills'' = Some (JObj sk) \<Longrightarrow>
   assign_skill (JObj ps) k v = Ok (JObj (AList.update ''skills'' (JObj (put_member k v sk)) ps))"
  by (simp add: assign_skill_def)

lemma assign_skill_throws:
  "assign_skill m k v = Throw TypeError \<longleftrightarrow>
     m = JNull \<or> own_prop m ''skills'' = None \<or> own_prop m ''skills'' = Some JNull"
proof (cases m)
  case JNull
  then show ?thesis by (simp add: assign_skill_def)
next
  case (JObj ps)
  show ?thesis
  proof (cases "map_of ps ''skills''")
    case None
    with JObj show ?thesis by (simp add: assign_skill_def)
  next
    case (Some s)
    with JObj show ?thesis
      by (cases s) (simp_all add: assign_skill_def split: option.splits)
  qed
next
  case (JArr xs)
  then show ?thesis by (simp add: assign_skill_def array_index_def is_digit_def)
next
  case (JStr s)
  then show ?thesis by (simp add: assign_skill_def array_index_def is_digit_def)
qed (simp_all add: assign_skill_def)

lemma writeFileSync_ok:
  "map_of f p \<noteq> Some Dir \<Longrightarrow> map_of f p \<noteq> None \<or> map_of f (dirname p) = Some Dir \<Longrightarrow>
   writeFileSync f p c = Ok (AList.update p (File c) f)"
  by (auto simp: writeFileSync_def split: option.splits node.splits)

lemma updateManifest_object:
  assumes load: "load_manifest (join skillsDir ''.skills-manifest.json'') w = (Ok (JObj ps), wa)"
    and skills: "map_of ps ''skills'' = Some (JObj sk)"
    and nodir: "map_of (fs wa) (join skillsDir ''.skills-manifest.json'') \<noteq> Some Dir"
    and parent: "map_of (fs wa) (join skillsDir ''.skills-manifest.json'') \<noteq> None
        \<or> map_of (fs wa) (dirname (join skillsDir ''.skills-manifest.json'')) = Some Dir"
  shows "updateManifest e skillsDir cfg t w =
     (Ok (),
      wa\<lparr>trace := trace wa @
           [WriteFileSync (join skillsDir ''.skills-manifest.json'')
              (Doc (JObj (AList.update ''skills''
                 (JObj (put_member (config.name cfg) (manifest_entry e skillsDir cfg t) sk)) ps)))],
         fs := AList.update (join skillsDir ''.skills-manifest.json'')
                 (File (Doc (JObj (AList.update ''skills''
                    (JObj (put_member (config.name cfg) (manifest_entry e skillsDir cfg t) sk)) ps))))
                 (fs wa)\<rparr>)"
  using load
  by (simp add: updateManifest_def Let_def bind_io_def lift_res_def assign_skill_object [OF skills]
      fs_call_def writeFileSync_ok [OF nodir parent])

lemma extractSkillName_scoped: "extractSkillName ''@scope/pkg'' = ''pkg''"
  by (simp add: extractSkillName_def startsWith_def)

lemma no_removalI:
  "(\<And>w. \<exists>evs. trace (snd (m w)) = trace w @ evs \<and> list_all (\<lambda>ev. \<not> is_rm ev) evs)
   \<Longrightarrow> no_removal m"
  by (simp add: no_removal_def)

lemma no_removalD:
  "no_removal m \<Longrightarrow> \<exists>evs. trace (snd (m w)) = trace w @ evs \<and> list_all (\<lambda>ev. \<not> is_rm ev) evs"
  by (simp add: no_removal_def)

lemma no_removal_pure: "no_removal (\<lambda>w. (g w, w))"
  by (rule no_removalI) simp

lemma no_removal_return: "no_removal (return_io x)"
  by (rule no_removalI) (simp add: return_io_def)

lemma no_removal_throw: "no_removal (throw_io x)"
  by (rule no_removalI) (simp add: throw_io_def)

lemma no_removal_lift: "no_removal (lift_res r)"
  by (rule no_removalI) (simp add: lift_res_def)

lemma no_removal_emit: "\<not> is_rm ev \<Longrightarrow> no_removal (emit ev)"
  by (rule no_removalI) (simp add: emit_def)

lemma no_removal_fs_call: "\<not> is_rm ev \<Longrightarrow> no_removal (fs_call ev op)"
  by (rule no_removalI) (simp add: fs_call_def Let_def split: res.splits)

lemma no_removal_bind:
  assumes m: "no_removal m" and k: "\<And>x. no_removal (k x)"
  shows "no_removal (bind_io m k)"
proof (rule no_removalI)
  fix w
  obtain r w1 where mw: "m w = (r, w1)" by (cases "m w")
  from no_removalD [OF m, of w] mw obtain evs1
    where e1: "trace w1 = trace w @ evs1" "list_all (\<lambda>ev. \<not> is_rm ev) evs1" by auto
  show "\<exists>evs. trace (snd (bind_io m k w)) = trace w @ evs \<and> list_all (\<lambda>ev. \<not> is_rm ev) evs"
  proof (cases r)
    case (Ok x)
    from no_removalD [OF k, of x w1] obtain evs2
      where e2: "trace (snd (k x w1)) = trace w1 @ evs2" "list_all (\<lambda>ev. \<not> is_rm ev) evs2" by auto
    have "trace (snd (bind_io m k w)) = trace w @ (evs1 @ evs2)"
      using mw Ok e1 e2 by (simp add: bind_io_def)
    moreover have "list_all (\<lambda>ev. \<not> is_rm ev) (evs1 @ evs2)" using e1 e2 by simp
    ultimately show ?thesis by blast
  next
    case (Throw x)
    with mw e1 show ?thesis by (auto simp: bind_io_def)
  next
    case Timeout
    with mw e1 show ?thesis by (auto simp: bind_io_def)
  qed
qed

lemma no_removal_then: "no_removal m \<Longrightarrow> no_removal k \<Longrightarrow> no_removal (then_io m k)"
  by (simp add: then_io_def no_removal_bind)

lemma no_removal_if:
  "no_removal m \<Longrightarrow> no_removal n \<Longrightarrow> no_removal (\<lambda>w. if c w then m w else n w)"
  by (simp add: no_removal_def)

lemma no_removal_try:
  assumes m: "no_removal m" and h: "\<And>x. no_removal (h x)"
  shows "no_removal (try_catch m h)"
proof (rule no_removalI)
  fix w
  obtain r w1 where mw: "m w = (r, w1)" by (cases "m w")
  from no_removalD [OF m, of w] mw obtain evs1
    where e1: "trace w1 = trace w @ evs1" "list_all (\<lambda>ev. \<not> is_rm ev) evs1" by auto
  show "\<exists>evs. trace (snd (try_catch m h w)) = trace w @ evs \<and> list_all (\<lambda>ev. \<not> is_rm ev) evs"
  proof (cases r)
    case (Throw x)
    from no_removalD [OF h, of x w1] obtain evs2
      where e2: "trace (snd (h x w1)) = trace w1 @ evs2" "list_all (\<lambda>ev. \<not> is_rm ev) evs2" by auto
    have "trace (snd (try_catch m h w)) = trace w @ (evs1 @ evs2)"
      using mw Throw e1 e2 by (simp add: try_catch_def)
    moreover have "list_all (\<lambda>ev. \<not> is_rm ev) (evs1 @ evs2)" using e1 e2 by simp
    ultimately show ?thesis by blast
  next
    case (Ok x)
    with mw e1 show ?thesis by (auto simp: try_catch_def)
  next
    case Timeout
    with mw e1 show ?thesis by (auto simp: try_catch_def)
  qed
qed

lemma no_removal_for_each:
  "(\<And>x. no_removal (body x)) \<Longrightarrow> no_removal (for_each xs body)"
  by (induction xs) (simp_all add: no_removal_return no_removal_then)

lemma no_removal_copyDir: "no_removal (copyDir fuel src dest)"
proof (induction fuel arbitrary: src dest)
  case 0
  show ?case by (simp add: no_removal_pure)
next
  case (Suc fuel)
  show ?case
    by (simp add: Let_def)
       (intro no_removal_then no_removal_bind no_removal_for_each no_removal_fs_call
          no_removal_pure, simp, simp add: Suc no_removal_fs_call)
qed

lemma no_removal_copy_entry: "no_removal (copy_entry e fuel targetDir entry)"
proof (rule no_removalI)
  fix w :: world
  let ?sourcePath = "join (script_dirname e) (fst entry)"
  let ?destPath = "join targetDir (snd entry)"
  let ?missing = "emit (Console_warn (''  Warning: '' @ fst entry @ '' not found, skipping''))"
  let ?directory = "then_io (copyDir fuel ?sourcePath ?destPath)
      (emit (Console_log (''  Copied directory: '' @ fst entry)))"
  let ?file = "then_io
      (if \<not> existsSync (fs w) (dirname ?destPath)
       then fs_call (MkdirSync (dirname ?destPath)) (\<lambda>f. mkdirSync f (dirname ?destPath))
       else return_io ())
      (then_io
         (fs_call (CopyFileSync ?sourcePath ?destPath) (\<lambda>f. copyFileSync f ?sourcePath ?destPath))
         (emit (Console_log (''  Copied file: '' @ fst entry))))"
  have 1: "no_removal ?missing" by (simp add: no_removal_emit)
  have 2: "no_removal ?directory"
    by (intro no_removal_then no_removal_copyDir no_removal_emit) simp
  have 3: "no_removal ?file"
    by (intro no_removal_then no_removal_emit no_removal_fs_call)
       (simp_all add: no_removal_fs_call no_removal_return)
  have "copy_entry e fuel targetDir entry w =
      (if \<not> existsSync (fs w) ?sourcePath then ?missing w
       else if map_of (fs w) ?sourcePath = Some Dir then ?directory w else ?file w)"
    by (simp add: copy_entry_def Let_def del: then_emit bind_emit)
  then show "\<exists>evs. trace (snd (copy_entry e fuel targetDir entry w)) = trace w @ evs
                 \<and> list_all (\<lambda>ev. \<not> is_rm ev) evs"
    using no_removalD [OF 1, of w] no_removalD [OF 2, of w] no_removalD [OF 3, of w]
    by (simp del: then_emit bind_emit)
qed

lemma no_removal_copy_payload: "no_removal (copy_payload e fuel cfg targetDir)"
proof -
  have "no_removal (case files cfg of
                      Some entries \<Rightarrow>
                        for_each (Object_entries entries) (copy_entry e fuel targetDir)
                    | None \<Rightarrow> return_io ())"
    by (cases "files cfg") (simp_all add: no_removal_return no_removal_for_each no_removal_copy_entry)
  then show ?thesis
    unfolding copy_payload_def Let_def
    by (intro no_removal_if no_removal_then no_removal_emit no_removal_fs_call
          no_removal_return no_removal_throw) simp_all
qed

lemma no_removal_load_manifest: "no_removal (load_manifest mp)"
proof -
  have "no_removal (read_json mp)"
    by (rule no_removalI) (simp add: read_json_def split: res.splits)
  then show ?thesis
    unfolding load_manifest_def
    by (intro no_removal_if no_removal_try no_removal_then no_removal_emit no_removal_return)
       simp_all
qed

lemma no_removal_updateManifest: "no_removal (updateManifest e skillsDir cfg targetName)"
  unfolding updateManifest_def Let_def
  by (intro no_removal_bind no_removal_load_manifest no_removal_lift no_removal_fs_call) simp

lemma no_removal_run_postinstall: "no_removal (run_postinstall e cfg targetDir)"
proof (cases "hooks cfg")
  case None
  then show ?thesis by (simp add: run_postinstall_def no_removal_return)
next
  case (Some h)
  show ?thesis
  proof (cases "postinstall h")
    case None
    with Some show ?thesis by (simp add: run_postinstall_def no_removal_return)
  next
    case (Some cmd)
    have "no_removal (\<lambda>w. let r = shell e cmd targetDir (fs w);
                            w1 = w\<lparr>fs := snd r, trace := trace w @ [ExecSync cmd targetDir]\<rparr>
                        in if fst r then emit (Console_log ''  Postinstall hook completed'') w1
                           else emit (Console_warn ''  Warning: postinstall hook failed'') w1)"
      by (rule no_removalI) (simp add: Let_def emit_def)
    with Some \<open>hooks cfg = Some h\<close> show ?thesis
      by (simp add: run_postinstall_def no_removal_return no_removal_then no_removal_emit)
  qed
qed

lemma cleanup_alternative_run:
  "cleanup_alternative cfg targetDir altTargetDir w =
     (if existsSync (fs w) altTargetDir \<and> altTargetDir \<noteq> targetDir then
        (Ok (), w\<lparr>trace := trace w @
                    [Console_log ''  Cleaning up alternative path format...'',
                     RmSync altTargetDir,
                     Console_log (''  Removed directory: '' @ config.name cfg)],
                  fs := rmSync (fs w) altTargetDir\<rparr>)
      else (Ok (), w))"
  by (simp add: cleanup_alternative_def return_io_def then_io_def bind_io_def emit_def
      fs_call_def)

subsection \<open>Target resolution\<close>

lemma getEnabledTargets_entries:
  assumes "targets cfg = Some ts" and "distinct (map fst ts)"
  shows "getEnabledTargets cfg =
     map (\<lambda>m. \<lparr>resolvedTarget.name = fst m, paths = targetSpec.paths (snd m)\<rparr>)
       (sort_key (\<lambda>m. index_of (fst m)) (filter (\<lambda>m. enabled (snd m) \<and> is_index (fst m)) ts))
     @ map (\<lambda>m. \<lparr>resolvedTarget.name = fst m, paths = targetSpec.paths (snd m)\<rparr>)
         (filter (\<lambda>m. enabled (snd m) \<and> \<not> is_index (fst m)) ts)"
proof -
  have "filter (\<lambda>m. enabled (snd m)) (sort_key (\<lambda>m. index_of (fst m)) (filter (\<lambda>m. is_index (fst m)) ts))
      = sort_key (\<lambda>m. index_of (fst m)) (filter (\<lambda>m. enabled (snd m) \<and> is_index (fst m)) ts)"
    by (simp add: filter_sort conj_commute)
  moreover have "filter (\<lambda>m. enabled (snd m)) (filter (\<lambda>m. \<not> is_index (fst m)) ts)
      = filter (\<lambda>m. enabled (snd m) \<and> \<not> is_index (fst m)) ts"
    by (simp add: conj_commute)
  ultimately show ?thesis
    using assms
    by (simp add: getEnabledTargets_def Object_entries_def parse_members_distinct split_def)
qed

lemma getEnabledTargets_plain_names:
  assumes "targets cfg = Some ts" and "distinct (map fst ts)"
    and "list_all (\<lambda>m. \<not> is_index (fst m)) ts"
  shows "getEnabledTargets cfg = spec_enabled_targets ts"
proof -
  from assms(3) have "filter (\<lambda>m. enabled (snd m) \<and> is_index (fst m)) ts = []"
    by (induction ts) auto
  moreover from assms(3) have "filter (\<lambda>m. enabled (snd m) \<and> \<not> is_index (fst m)) ts
      = filter (\<lambda>m. enabled (snd m)) ts"
    by (induction ts) auto
  ultimately show ?thesis
    by (simp add: getEnabledTargets_entries [OF assms(1,2)] spec_enabled_targets_def split_def)
qed

lemma getEnabledTargets_none_enabled:
  assumes "targets cfg = Some ts" and "list_all (\<lambda>m. \<not> enabled (snd m)) ts"
  shows "getEnabledTargets cfg = []"
proof -
  have "set (Object_entries ts) \<subseteq> set (parse_members ts)"
    by (auto simp: Object_entries_def)
  moreover have sub: "set (foldl (\<lambda>obj m. AList.update (fst m) (snd m) obj) acc ms) \<subseteq> set acc \<union> set ms"
    for acc :: "(string \<times> targetSpec) list" and ms
  proof (induction ms arbitrary: acc)
    case Nil
    show ?case by simp
  next
    case (Cons m ms)
    have "set (AList.update (fst m) (snd m) acc) \<subseteq> set acc \<union> {m}"
      by (induction acc) auto
    with Cons [of "AList.update (fst m) (snd m) acc"] show ?case by auto
  qed
  have "set (parse_members ts) \<subseteq> set ts"
    unfolding parse_members_def using sub [of "[]" ts] by simp
  moreover note this
  ultimately have "\<forall>m \<in> set (Object_entries ts). \<not> enabled (snd m)"
    using assms(2) by (auto simp: list_all_iff)
  then have "filter (\<lambda>m. enabled (snd m)) (Object_entries ts) = []"
    by (simp add: filter_empty_conv)
  with assms(1) show ?thesis by (simp add: getEnabledTargets_def split_def)
qed

text \<open>
  C9. A configuration without a \<open>targets\<close> field resolves to exactly one target, named
  \<^verbatim>\<open>claude-code\<close>, whose global and project paths are both \<^verbatim>\<open>.claude/skills\<close>.
\<close>

theorem C9_default_target:
  assumes "targets cfg = None"
  shows "getEnabledTargets cfg =
           [\<lparr>resolvedTarget.name = ''claude-code'',
             paths = \<lparr>global = ''.claude/skills'', project = ''.claude/skills''\<rparr>\<rparr>]
         \<and> length (getEnabledTargets cfg) = 1"
  using assms by (simp add: getEnabledTargets_def)

theorem C9_default_target_witness:
  "targets example_config = None \<and>
   getEnabledTargets example_config =
     [\<lparr>resolvedTarget.name = ''claude-code'',
       paths = \<lparr>global = ''.claude/skills'', project = ''.claude/skills''\<rparr>\<rparr>]"
proof -
  have h: "targets example_config = None" by (simp add: example_config_def)
  from C9_default_target [OF h] h show ?thesis by simp
qed

text \<open>
  C4, as stated, fails in its order clause: \<^verbatim>\<open>Object.entries\<close> enumerates the names
  that are array indices first, in ascending order, so the enabled targets declared as
  \<^verbatim>\<open>cursor\<close>, \<^verbatim>\<open>10\<close>, \<^verbatim>\<open>2\<close> are resolved as \<^verbatim>\<open>2\<close>, \<^verbatim>\<open>10\<close>,
  \<^verbatim>\<open>cursor\<close>.
\<close>

theorem C4_declaration_order_counterexample:
  "map resolvedTarget.name (getEnabledTargets integer_named_config) = [''2'', ''10'', ''cursor''] \<and>
   map resolvedTarget.name (spec_enabled_targets integer_named_targets)
     = [''cursor'', ''10'', ''2''] \<and>
   targets integer_named_config = Some integer_named_targets \<and>
   getEnabledTargets integer_named_config \<noteq> spec_enabled_targets integer_named_targets"
  by code_simp

text \<open>
  C4, amended. For a configuration of the data model with a \<open>targets\<close> field (distinct
  target names, boolean flags) the resolver returns exactly the entries whose
  \<open>enabled\<close> is \<open>true\<close>, each once, as name and paths, in the order in which
  \<^verbatim>\<open>Object.entries\<close> enumerates the targets: the names that are array indices
  first, in ascending numeric order, then the other names in the order of their
  declaration. With no such name the order is that of the declaration
  (\<open>getEnabledTargets_plain_names\<close>); with no enabled target the result is empty
  (\<open>getEnabledTargets_none_enabled\<close>).
\<close>

theorem C4_enabled_targets_in_enumeration_order:
  assumes "targets cfg = Some ts" and "distinct (map fst ts)"
  shows "set (getEnabledTargets cfg) =
           (\<lambda>m. \<lparr>resolvedTarget.name = fst m, paths = targetSpec.paths (snd m)\<rparr>)
             ` {m \<in> set ts. enabled (snd m)}
       \<and> length (getEnabledTargets cfg) = length (filter (\<lambda>m. enabled (snd m)) ts)
       \<and> getEnabledTargets cfg =
           filter (\<lambda>r. is_index (resolvedTarget.name r)) (getEnabledTargets cfg)
           @ filter (\<lambda>r. \<not> is_index (resolvedTarget.name r)) (getEnabledTargets cfg)
       \<and> sorted (map (\<lambda>r. index_of (resolvedTarget.name r))
                   (filter (\<lambda>r. is_index (resolvedTarget.name r)) (getEnabledTargets cfg)))
       \<and> filter (\<lambda>r. \<not> is_index (resolvedTarget.name r)) (getEnabledTargets cfg) =
           map (\<lambda>m. \<lparr>resolvedTarget.name = fst m, paths = targetSpec.paths (snd m)\<rparr>)
             (filter (\<lambda>m. enabled (snd m) \<and> \<not> is_index (fst m)) ts)"
proof -
  let ?res = "\<lambda>m. \<lparr>resolvedTarget.name = fst m, paths = targetSpec.paths (snd m)\<rparr>"
  let ?ix = "sort_key (\<lambda>m. index_of (fst m)) (filter (\<lambda>m. enabled (snd m) \<and> is_index (fst m)) ts)"
  let ?nx = "filter (\<lambda>m. enabled (snd m) \<and> \<not> is_index (fst m)) ts"
  have R: "getEnabledTargets cfg = map ?res ?ix @ map ?res ?nx"
    using assms by (rule getEnabledTargets_entries)
  have ix: "\<forall>m \<in> set ?ix. is_index (fst m)" by simp
  have nx: "\<forall>m \<in> set ?nx. \<not> is_index (fst m)" by simp
  have f1: "filter (\<lambda>r. is_index (resolvedTarget.name r)) (map ?res ?ix) = map ?res ?ix"
    using ix by (simp add: filter_map o_def)
  have f2: "filter (\<lambda>r. is_index (resolvedTarget.name r)) (map ?res ?nx) = []"
    using nx by (simp add: filter_map o_def filter_empty_conv)
  have f3: "filter (\<lambda>r. \<not> is_index (resolvedTarget.name r)) (map ?res ?ix) = []"
    using ix by (simp add: filter_map o_def filter_empty_conv)
  have f4: "filter (\<lambda>r. \<not> is_index (resolvedTarget.name r)) (map ?res ?nx) = map ?res ?nx"
    using nx by (simp add: filter_map o_def)
  have a: "set (getEnabledTargets cfg) = ?res ` {m \<in> set ts. enabled (snd m)}"
    unfolding R by auto
  have "length ?ix + length ?nx = length (filter (\<lambda>m. enabled (snd m)) ts)"
    by (induction ts) auto
  then have b: "length (getEnabledTargets cfg) = length (filter (\<lambda>m. enabled (snd m)) ts)"
    unfolding R by simp
  have c: "getEnabledTargets cfg =
           filter (\<lambda>r. is_index (resolvedTarget.name r)) (getEnabledTargets cfg)
           @ filter (\<lambda>r. \<not> is_index (resolvedTarget.name r)) (getEnabledTargets cfg)"
    unfolding R by (simp only: filter_append f1 f2 f3 f4 append_Nil append_Nil2)
  have "map (\<lambda>r. index_of (resolvedTarget.name r)) (map ?res ?ix)
        = map (\<lambda>m. index_of (fst m)) ?ix"
    by (simp add: o_def)
  moreover have "sorted (map (\<lambda>m. index_of (fst m)) ?ix)" by (rule sorted_sort_key)
  ultimately have d: "sorted (map (\<lambda>r. index_of (resolvedTarget.name r))
                   (filter (\<lambda>r. is_index (resolvedTarget.name r)) (getEnabledTargets cfg)))"
    unfolding R by (simp only: filter_append f1 f2 append_Nil2)
  have e: "filter (\<lambda>r. \<not> is_index (resolvedTarget.name r)) (getEnabledTargets cfg) = map ?res ?nx"
    unfolding R by (simp only: filter_append f3 f4 append_Nil)
  from a b c d e show ?thesis by blast
qed

theorem C4_enabled_targets_in_enumeration_order_witness:
  "targets integer_named_config = Some integer_named_targets \<and>
   distinct (map fst integer_named_targets) \<and>
   length (getEnabledTargets integer_named_config) = 3 \<and>
   filter (\<lambda>r. \<not> is_index (resolvedTarget.name r)) (getEnabledTargets integer_named_config)
     = [\<lparr>resolvedTarget.name = ''cursor'', paths = example_paths\<rparr>]"
proof -
  have t: "targets integer_named_config = Some integer_named_targets"
    by (simp add: integer_named_config_def)
  have d: "distinct (map fst integer_named_targets)" by code_simp
  have l: "length (filter (\<lambda>m. enabled (snd m)) integer_named_targets) = 3" by code_simp
  have f: "map (\<lambda>m. \<lparr>resolvedTarget.name = fst m, paths = targetSpec.paths (snd m)\<rparr>)
             (filter (\<lambda>m. enabled (snd m) \<and> \<not> is_index (fst m)) integer_named_targets)
           = [\<lparr>resolvedTarget.name = ''cursor'', paths = example_paths\<rparr>]"
    by code_simp
  from C4_enabled_targets_in_enumeration_order [OF t d] t d l f show ?thesis by simp
qed

subsection \<open>Install location\<close>

text \<open>
  C1. The scope of location detection is to come from the global-install toggle, in the
  installer and in the uninstaller: the global branch (type \<^verbatim>\<open>personal\<close>, base below
  the home directory) when it is true. The uninstaller passes
  \<^verbatim>\<open>npm_config_global === 'true'\<close> to the detector. The installer calls the detector
  with one argument and so takes the project branch whatever the toggle says
  (\<open>installToTarget_ignores_toggle\<close>): under a global install it reports the type
  \<^verbatim>\<open>project\<close> and writes below the project root \<^verbatim>\<open>/repo\<close>, where the detector
  with the toggle passed gives the base below the home directory.
\<close>

theorem C1_installer_ignores_global_toggle:
  "npm_config_global global_install_env = Some ''true'' \<and>
   fst (installToTarget global_install_env 3 default_target example_config clean_world)
     = Ok ''/repo/.claude/skills/pkg'' \<and>
   Console_log ''  Type: project''
     \<in> set (trace (snd (installToTarget global_install_env 3 default_target example_config clean_world))) \<and>
   fst (detectInstallLocation global_install_env (resolvedTarget.paths default_target)
          (Some (npm_config_global global_install_env = Some ''true'')) clean_world)
     = Ok \<lparr>type = ''personal'', base = ''/home/u/.claude/skills''\<rparr>"
  by code_simp

text \<open>
  C2, as stated, fails: with the version-control marker at \<^verbatim>\<open>/repo\<close> and a package
  manifest in \<^verbatim>\<open>/repo/sub\<close>, the walk from \<^verbatim>\<open>/repo/sub/node_modules/pkg\<close> stops at
  \<^verbatim>\<open>/repo/sub\<close>, the nearest directory with a marker, and the base is not below
  \<^verbatim>\<open>/repo\<close> directly.
\<close>

theorem C2_nearest_marker_counterexample:
  "existsSync (fs monorepo_world) ''/repo/.git'' \<and>
   CWD nested_env = ''/repo/sub/node_modules/pkg'' \<and>
   fst (detectInstallLocation nested_env example_paths (Some False) monorepo_world)
     = Ok \<lparr>type = ''project'', base = ''/repo/sub/.claude/skills''\<rparr> \<and>
   fst (detectInstallLocation nested_env example_paths (Some False) monorepo_world)
     \<noteq> Ok \<lparr>type = ''project'', base = join ''/repo'' (project example_paths)\<rparr>"
  by code_simp

text \<open>
  C2, amended. With a version-control marker at \<^verbatim>\<open>/repo\<close> and the walk starting at
  \<^verbatim>\<open>/repo/sub/node_modules/pkg\<close>, project-scope detection never chooses a directory
  inside or named \<^verbatim>\<open>node_modules\<close>; it returns the base below \<^verbatim>\<open>/repo/sub\<close> where
  that directory holds a \<^verbatim>\<open>package.json\<close> or \<^verbatim>\<open>.git\<close>, and below \<^verbatim>\<open>/repo\<close>
  otherwise.
\<close>

theorem C2_skips_dependency_cache:
  assumes "existsSync (fs w) ''/repo/.git''"
    and "CWD e = ''/repo/sub/node_modules/pkg''"
    and "isGlobal \<noteq> Some True"
  shows "detectInstallLocation e targetPaths isGlobal w =
           (Ok \<lparr>type = ''project'',
                base = join (if existsSync (fs w) ''/repo/sub/package.json''
                                \<or> existsSync (fs w) ''/repo/sub/.git''
                             then ''/repo/sub'' else ''/repo'') (project targetPaths)\<rparr>, w)
         \<and> \<not> isInNodeModules (walk (fs w) (CWD e))"
  using assms by (simp add: detect_project walk_repo nm3 nm4)

theorem C2_skips_dependency_cache_witness:
  "existsSync (fs plain_repo_world) ''/repo/.git'' \<and>
   CWD nested_env = ''/repo/sub/node_modules/pkg'' \<and>
   detectInstallLocation nested_env example_paths None plain_repo_world =
     (Ok \<lparr>type = ''project'', base = ''/repo/.claude/skills''\<rparr>, plain_repo_world)"
proof -
  have a: "existsSync (fs plain_repo_world) ''/repo/.git''" by code_simp
  have b: "CWD nested_env = ''/repo/sub/node_modules/pkg''" by code_simp
  have c: "(None :: bool option) \<noteq> Some True" by simp
  have d: "\<not> existsSync (fs plain_repo_world) ''/repo/sub/package.json''"
    "\<not> existsSync (fs plain_repo_world) ''/repo/sub/.git''" by code_simp+
  have j: "join ''/repo'' (project example_paths) = ''/repo/.claude/skills''" by code_simp
  from C2_skips_dependency_cache [OF a b c, of example_paths] a b d j show ?thesis by simp
qed



text \<open>
  The walk itself ends on a directory with a marker outside every dependency cache or
  on a fixed point of \<open>dirname\<close>, so it never leaves such a candidate
  (\<open>walk_not_in_node_modules\<close>) and no run of the detector emits the warning
  (\<open>detectInstallLocation_never_warns\<close>). Started inside a dependency cache with no
  marker above, it ends at the root, and the base is the one below \<^verbatim>\<open>/\<close>.
\<close>

lemma walk_to_root_example:
  "CWD bare_env = ''/work/node_modules/pkg'' \<and>
   walk (fs bare_world) (CWD bare_env) = ''/'' \<and>
   detectInstallLocation bare_env example_paths (Some False) bare_world =
     (Ok \<lparr>type = ''project'', base = ''/.claude/skills''\<rparr>, bare_world) \<and>
   join (CWD bare_env) (project example_paths) = ''/work/node_modules/pkg/.claude/skills''"
  by code_simp

subsection \<open>Installing to a target\<close>

text \<open>
  C5, as stated, fails: the source tests only that the alternative directory exists and
  differs from the skill directory. With the alternative directory present and the skill
  directory absent, the installer removes the alternative all the same.
\<close>

theorem C5_alternative_only_counterexample:
  "\<not> existsSync (fs legacy_world) ''/repo/.claude/skills/pkg'' \<and>
   existsSync (fs legacy_world) ''/repo/.claude/skills/@scope/pkg'' \<and>
   RmSync ''/repo/.claude/skills/@scope/pkg''
     \<in> set (trace (snd (installToTarget global_install_env 3 default_target example_config
                           legacy_world))) \<and>
   \<not> existsSync (fs (snd (installToTarget global_install_env 3 default_target example_config
                          legacy_world))) ''/repo/.claude/skills/@scope/pkg''"
  by code_simp

text \<open>
  C5, amended. During install, the alternative directory \<open>base/fullScopedName\<close> is
  deleted exactly when it exists and its path differs from the skill directory
  \<open>base/strippedName\<close>, whether or not the skill directory exists. The trace of an
  install is the three opening messages, then the removal when that condition holds,
  then everything else: creating the skill directory, every copy and the manifest
  update come after the removal, and nothing else is removed.
\<close>

theorem C5_alternative_removed_first:
  assumes "fst (detectInstallLocation e (resolvedTarget.paths target) None w) = Ok location"
  shows "\<exists>rest.
           trace (snd (installToTarget e fuel target cfg w)) =
             trace w
             @ [Console_log (''Installing to '' @ resolvedTarget.name target @ ''...''),
                Console_log (''  Type: '' @ type location),
                Console_log (''  Directory: ''
                   @ join (base location) (extractSkillName (config.name cfg)))]
             @ (if existsSync (fs w) (join (base location) (config.name cfg))
                   \<and> join (base location) (config.name cfg)
                       \<noteq> join (base location) (extractSkillName (config.name cfg))
                then [Console_log ''  Cleaning up alternative path format...'',
                      RmSync (join (base location) (config.name cfg)),
                      Console_log (''  Removed directory: '' @ config.name cfg)]
                else [])
             @ rest
         \<and> list_all (\<lambda>ev. \<not> is_rm ev) rest"
proof -
  let ?targetDir = "join (base location) (extractSkillName (config.name cfg))"
  let ?alt = "join (base location) (config.name cfg)"
  let ?rest = "then_io (copy_payload e fuel cfg ?targetDir)
     (then_io (updateManifest e (base location) cfg (resolvedTarget.name target))
        (then_io (run_postinstall e cfg ?targetDir)
           (then_io (emit (Console_log (''  Installed to '' @ resolvedTarget.name target)))
              (return_io ?targetDir))))"
  let ?w0 = "w\<lparr>trace := trace w @
      [Console_log (''Installing to '' @ resolvedTarget.name target @ ''...'')]\<rparr>"
  let ?w2 = "w\<lparr>trace := trace w @
      [Console_log (''Installing to '' @ resolvedTarget.name target @ ''...''),
       Console_log (''  Type: '' @ type location),
       Console_log (''  Directory: '' @ ?targetDir)]\<rparr>"
  have rest: "no_removal ?rest"
    by (intro no_removal_then no_removal_copy_payload no_removal_updateManifest
          no_removal_run_postinstall no_removal_emit no_removal_return) simp
  have d0: "\<And>k v. fs v = fs w \<Longrightarrow>
      bind_io (detectInstallLocation e (resolvedTarget.paths target) None) k v = k location v"
    using assms by (simp add: detect_project)
  have run: "installToTarget e fuel target cfg w =
      then_io (cleanup_alternative cfg ?targetDir ?alt) ?rest ?w2"
    by (simp add: installToTarget_def Let_def d0 del: bind_detect_project bind_detect_global)
  show ?thesis
  proof (cases "existsSync (fs w) ?alt \<and> ?alt \<noteq> ?targetDir")
    case True
    let ?w3 = "?w2\<lparr>trace := trace ?w2 @
                    [Console_log ''  Cleaning up alternative path format...'',
                     RmSync ?alt,
                     Console_log (''  Removed directory: '' @ config.name cfg)],
                  fs := rmSync (fs ?w2) ?alt\<rparr>"
    from True have "installToTarget e fuel target cfg w = ?rest ?w3"
      unfolding run by (simp add: then_io_def bind_io_def cleanup_alternative_run)
    moreover from no_removalD [OF rest, of ?w3] obtain evs
      where "trace (snd (?rest ?w3)) = trace ?w3 @ evs" "list_all (\<lambda>ev. \<not> is_rm ev) evs"
      by blast
    ultimately show ?thesis using True by simp
  next
    case False
    then have "installToTarget e fuel target cfg w = ?rest ?w2"
      unfolding run by (auto simp add: then_io_def bind_io_def cleanup_alternative_run)
    moreover from no_removalD [OF rest, of ?w2] obtain evs
      where "trace (snd (?rest ?w2)) = trace ?w2 @ evs" "list_all (\<lambda>ev. \<not> is_rm ev) evs"
      by blast
    ultimately show ?thesis using False by auto
  qed
qed

theorem C5_alternative_removed_first_witness:
  "\<exists>rest.
     trace (snd (installToTarget global_install_env 3 default_target example_config legacy_world)) =
       [Console_log ''Installing to claude-code...'',
        Console_log ''  Type: project'',
        Console_log ''  Directory: /repo/.claude/skills/pkg'',
        Console_log ''  Cleaning up alternative path format...'',
        RmSync ''/repo/.claude/skills/@scope/pkg'',
        Console_log ''  Removed directory: @scope/pkg''] @ rest
   \<and> list_all (\<lambda>ev. \<not> is_rm ev) rest"
proof -
  have h: "fst (detectInstallLocation global_install_env (resolvedTarget.paths default_target) None
                  legacy_world)
           = Ok \<lparr>type = ''project'', base = ''/repo/.claude/skills''\<rparr>"
    by code_simp
  have facts:
    "join ''/repo/.claude/skills'' ''@scope/pkg'' = ''/repo/.claude/skills/@scope/pkg''"
    "join ''/repo/.claude/skills'' (extractSkillName ''@scope/pkg'') = ''/repo/.claude/skills/pkg''"
    "existsSync (fs legacy_world) ''/repo/.claude/skills/@scope/pkg''"
    "trace legacy_world = []"
    "resolvedTarget.name default_target = ''claude-code''"
    "config.name example_config = ''@scope/pkg''"
    by code_simp+
  from C5_alternative_removed_first [OF h, of 3 example_config] show ?thesis
    by (simp add: facts)
qed

subsection \<open>Uninstalling from a target\<close>

text \<open>
  C7. Per-target uninstall never throws. It returns \<open>true\<close> exactly when the
  stripped-name directory or the full-name directory existed under the target's base,
  so it returns \<open>false\<close> when neither did; afterwards neither directory exists.
\<close>

theorem C7_uninstall_outcome:
  assumes "fst (detectInstallLocation e (resolvedTarget.paths target)
                  (Some (npm_config_global e = Some ''true'')) w) = Ok location"
  shows "\<exists>w'. uninstallFromTarget e target cfg w =
            (Ok (existsSync (fs w) (join (base location) (extractSkillName (config.name cfg)))
                 \<or> existsSync (fs w) (join (base location) (config.name cfg))), w')
          \<and> \<not> existsSync (fs w') (join (base location) (extractSkillName (config.name cfg)))
          \<and> \<not> existsSync (fs w') (join (base location) (config.name cfg))"
proof -
  let ?w0 = "w\<lparr>trace := trace w @
      [Console_log (''Uninstalling from '' @ resolvedTarget.name target @ ''...'')]\<rparr>"
  have "fst (detectInstallLocation e (resolvedTarget.paths target)
                  (Some (npm_config_global e = Some ''true'')) ?w0) = Ok location"
    using assms
    by (cases "npm_config_global e = Some ''true''") (simp_all add: detect_project detect_global)
  then have "uninstallFromTarget e target cfg w =
      bind_io (remove_directories cfg (base location))
        (\<lambda>removed. then_io
           (remove_from_manifest cfg (join (base location) ''.skills-manifest.json''))
           (if removed then
              then_io (emit (Console_log (''  Uninstalled from '' @ resolvedTarget.name target)))
                (return_io True)
            else
              then_io (emit (Console_log
                 (''  Skill was not installed in '' @ resolvedTarget.name target)))
                (return_io False))) ?w0"
    by (simp add: uninstallFromTarget_def Let_def bind_detect del: bind_detect_global bind_detect_project)
  moreover have "fs ?w0 = fs w" by simp
  ultimately show ?thesis
    using uninstall_body [where cfg = cfg and b = "base location" and w = ?w0
        and mp = "join (base location) ''.skills-manifest.json''"
        and eva = "Console_log (''  Uninstalled from '' @ resolvedTarget.name target)"
        and evb = "Console_log (''  Skill was not installed in '' @ resolvedTarget.name target)"]
    by simp
qed

theorem C7_uninstall_outcome_witness:
  "(\<exists>w'. uninstallFromTarget global_install_env default_target example_config installed_world
            = (Ok True, w')
          \<and> \<not> existsSync (fs w') ''/home/u/.claude/skills/pkg'')"
proof -
  have h: "fst (detectInstallLocation global_install_env (resolvedTarget.paths default_target)
                  (Some (npm_config_global global_install_env = Some ''true'')) installed_world)
           = Ok \<lparr>type = ''personal'', base = ''/home/u/.claude/skills''\<rparr>"
    by code_simp
  have p: "join ''/home/u/.claude/skills'' (extractSkillName (config.name example_config))
           = ''/home/u/.claude/skills/pkg''"
    by code_simp
  have x: "existsSync (fs installed_world) ''/home/u/.claude/skills/pkg''"
    by code_simp
  from C7_uninstall_outcome [OF h, of example_config] show ?thesis
    by (auto simp add: p x)
qed

subsection \<open>The manifest\<close>

text \<open>
  C3, as stated, fails: the source takes \<^verbatim>\<open>config.package || config.name\<close>, so a
  configuration whose \<open>package\<close> is the empty string is recorded under the package
  name, where \<^verbatim>\<open>config.package ?? config.name\<close> would record the empty string.
\<close>

theorem C3_empty_package_counterexample:
  "package empty_package_config = Some [] \<and>
   fst (updateManifest global_install_env ''/home/u'' empty_package_config ''claude-code'' clean_world)
     = Ok () \<and>
   map_of (fs (snd (updateManifest global_install_env ''/home/u'' empty_package_config
                      ''claude-code'' clean_world))) ''/home/u/.skills-manifest.json''
     = Some (File (Doc (JObj [(''skills'', JObj [(''@scope/pkg'',
          JObj [(''version'', JStr ''1.0.0''), (''installedAt'', JStr ''2024-01-01T00:00:00.000Z''),
                (''package'', JStr ''@scope/pkg''), (''path'', JStr ''/home/u/pkg''),
                (''target'', JStr ''claude-code'')])])]))) \<and>
   spec_manifest_entry global_install_env empty_package_config ''claude-code'' ''/home/u/pkg''
     = JObj [(''version'', JStr ''1.0.0''), (''installedAt'', JStr ''2024-01-01T00:00:00.000Z''),
             (''package'', JStr []), (''path'', JStr ''/home/u/pkg''),
             (''target'', JStr ''claude-code'')] \<and>
   manifest_entry global_install_env ''/home/u'' empty_package_config ''claude-code''
     \<noteq> spec_manifest_entry global_install_env empty_package_config ''claude-code'' ''/home/u/pkg''"
  by code_simp

text \<open>
  C3, amended. Where the manifest that the update loads is an object whose \<open>skills\<close>
  is an object, not an array (a new manifest included), its file can be written, and
  the package name is not \<^verbatim>\<open>__proto__\<close>, the update sets
  \<open>manifest.skills[config.name]\<close>, keyed by the full package name, to the record of
  \<open>version\<close>, \<open>installedAt\<close>, \<open>package\<close> (the configured package, or the name
  where that is absent or empty), \<open>path\<close> (the skill directory: the base joined with
  the name stripped of its scope) and \<open>target\<close>. For \<^verbatim>\<open>@scope/pkg\<close> the directory
  is named \<^verbatim>\<open>pkg\<close> and the key stays \<^verbatim>\<open>@scope/pkg\<close>
  (\<open>extractSkillName_scoped\<close>, \<open>install_scoped_package\<close>). An assignment to
  \<^verbatim>\<open>__proto__\<close> replaces the prototype and records nothing
  (\<open>proto_name_not_recorded\<close>).
\<close>

theorem C3_manifest_upsert:
  assumes loaded: "fst (load_manifest (join skillsDir ''.skills-manifest.json'') w) = Ok (JObj ps)"
    and skills: "map_of ps ''skills'' = Some (JObj sk)"
    and nodir: "map_of (fs w) (join skillsDir ''.skills-manifest.json'') \<noteq> Some Dir"
    and parent: "map_of (fs w) (join skillsDir ''.skills-manifest.json'') \<noteq> None
        \<or> map_of (fs w) (dirname (join skillsDir ''.skills-manifest.json'')) = Some Dir"
    and named: "config.name cfg \<noteq> ''__proto__''"
  shows "\<exists>w' ps' sk'.
           updateManifest e skillsDir cfg targetName w = (Ok (), w')
         \<and> map_of (fs w') (join skillsDir ''.skills-manifest.json'') = Some (File (Doc (JObj ps')))
         \<and> map_of ps' ''skills'' = Some (JObj sk')
         \<and> map_of sk' (config.name cfg) =
             Some (JObj [(''version'', JStr (version cfg)),
                         (''installedAt'', JStr (now e)),
                         (''package'', JStr (case package cfg of
                                              Some pkg \<Rightarrow> (if pkg = [] then config.name cfg else pkg)
                                            | None \<Rightarrow> config.name cfg)),
                         (''path'', JStr (join skillsDir (extractSkillName (config.name cfg)))),
                         (''target'', JStr targetName)])"
proof -
  let ?mp = "join skillsDir ''.skills-manifest.json''"
  obtain wa where load: "load_manifest ?mp w = (Ok (JObj ps), wa)"
    using loaded by (cases "load_manifest ?mp w") simp
  have same: "fs wa = fs w" using load_manifest_snd_fs [of ?mp w] load by simp
  have "updateManifest e skillsDir cfg targetName w =
     (Ok (),
      wa\<lparr>trace := trace wa @
           [WriteFileSync ?mp
              (Doc (JObj (AList.update ''skills''
                 (JObj (put_member (config.name cfg) (manifest_entry e skillsDir cfg targetName) sk)) ps)))],
         fs := AList.update ?mp
                 (File (Doc (JObj (AList.update ''skills''
                    (JObj (put_member (config.name cfg) (manifest_entry e skillsDir cfg targetName) sk)) ps))))
                 (fs wa)\<rparr>)"
    using nodir parent by (intro updateManifest_object [OF load skills]) (simp_all add: same)
  moreover have "manifest_entry e skillsDir cfg targetName =
      JObj [(''version'', JStr (version cfg)),
                         (''installedAt'', JStr (now e)),
                         (''package'', JStr (case package cfg of
                                              Some pkg \<Rightarrow> (if pkg = [] then config.name cfg else pkg)
                                            | None \<Rightarrow> config.name cfg)),
                         (''path'', JStr (join skillsDir (extractSkillName (config.name cfg)))),
                         (''target'', JStr targetName)]"
    by (simp add: manifest_entry_path split: option.splits)
  ultimately show ?thesis
    using named by (simp add: update_conv' map_of_put_member_same)
qed

theorem C3_manifest_upsert_witness:
  "\<exists>w' ps' sk'.
     updateManifest global_install_env ''/home/u'' example_config ''claude-code'' clean_world
       = (Ok (), w')
   \<and> map_of (fs w') ''/home/u/.skills-manifest.json'' = Some (File (Doc (JObj ps')))
   \<and> map_of ps' ''skills'' = Some (JObj sk')
   \<and> map_of sk' ''@scope/pkg'' =
        Some (JObj [(''version'', JStr ''1.0.0''),
                    (''installedAt'', JStr ''2024-01-01T00:00:00.000Z''),
                    (''package'', JStr ''@scope/pkg''),
                    (''path'', JStr ''/home/u/pkg''),
                    (''target'', JStr ''claude-code'')])"
proof -
  have mp: "join ''/home/u'' ''.skills-manifest.json'' = ''/home/u/.skills-manifest.json''"
    by code_simp
  have loaded: "fst (load_manifest (join ''/home/u'' ''.skills-manifest.json'') clean_world)
      = Ok (JObj [(''skills'', JObj [])])"
    by code_simp
  have skills: "map_of [(''skills'', JObj [])] ''skills'' = Some (JObj [])" by simp
  have nodir: "map_of (fs clean_world) (join ''/home/u'' ''.skills-manifest.json'') \<noteq> Some Dir"
    by code_simp
  have parent: "map_of (fs clean_world) (join ''/home/u'' ''.skills-manifest.json'') \<noteq> None
        \<or> map_of (fs clean_world) (dirname (join ''/home/u'' ''.skills-manifest.json'')) = Some Dir"
    by code_simp
  have facts: "config.name example_config = ''@scope/pkg''" "version example_config = ''1.0.0''"
    "package example_config = None" "now global_install_env = ''2024-01-01T00:00:00.000Z''"
    by (simp_all add: example_config_def global_install_env_def)
  have p: "join ''/home/u'' (extractSkillName ''@scope/pkg'') = ''/home/u/pkg''" by code_simp
  have named: "config.name example_config \<noteq> ''__proto__''"
    by (simp add: example_config_def)
  from C3_manifest_upsert [OF loaded skills nodir parent named, of global_install_env
      "''claude-code''"]
  show ?thesis by (simp add: mp facts p)
qed

lemma install_scoped_package:
  "fst (installToTarget global_install_env 3 default_target example_config clean_world)
     = Ok ''/repo/.claude/skills/pkg'' \<and>
   map_of (fs (snd (installToTarget global_install_env 3 default_target example_config clean_world)))
     ''/repo/.claude/skills/pkg'' = Some Dir \<and>
   \<not> existsSync (fs (snd (installToTarget global_install_env 3 default_target example_config
                          clean_world))) ''/repo/.claude/skills/@scope/pkg'' \<and>
   map_of (fs (snd (installToTarget global_install_env 3 default_target example_config clean_world)))
     ''/repo/.claude/skills/.skills-manifest.json''
     = Some (File (Doc (JObj [(''skills'', JObj [(''@scope/pkg'',
          JObj [(''version'', JStr ''1.0.0''), (''installedAt'', JStr ''2024-01-01T00:00:00.000Z''),
                (''package'', JStr ''@scope/pkg''), (''path'', JStr ''/repo/.claude/skills/pkg''),
                (''target'', JStr ''claude-code'')])])])))"
  by code_simp

lemma proto_name_not_recorded:
  "fst (updateManifest global_install_env ''/home/u'' proto_named_config ''claude-code'' clean_world)
     = Ok () \<and>
   map_of (fs (snd (updateManifest global_install_env ''/home/u'' proto_named_config
                      ''claude-code'' clean_world))) ''/home/u/.skills-manifest.json''
     = Some (File (Doc (JObj [(''skills'', JObj [])])))"
  by code_simp

text \<open>
  C8. On a manifest file that holds an object with an object-valued \<open>skills\<close>, the
  update (load, upsert, save) succeeds and leaves the content as it was but for the one
  key: the top-level keys and their order, every top-level value other than \<open>skills\<close>,
  every skill other than \<open>config.name\<close>, and every other file are unchanged.
\<close>

theorem C8_manifest_round_trip:
  assumes present: "map_of (fs w) (join skillsDir ''.skills-manifest.json'') = Some (File (Doc (JObj ps)))"
    and skills: "map_of ps ''skills'' = Some (JObj sk)"
  shows "\<exists>w' ps' sk'.
           updateManifest e skillsDir cfg targetName w = (Ok (), w')
         \<and> map_of (fs w') (join skillsDir ''.skills-manifest.json'') = Some (File (Doc (JObj ps')))
         \<and> map fst ps' = map fst ps
         \<and> (\<forall>k. k \<noteq> ''skills'' \<longrightarrow> map_of ps' k = map_of ps k)
         \<and> map_of ps' ''skills'' = Some (JObj sk')
         \<and> (\<forall>k. k \<noteq> config.name cfg \<longrightarrow> map_of sk' k = map_of sk k)
         \<and> (\<forall>q. q \<noteq> join skillsDir ''.skills-manifest.json'' \<longrightarrow> map_of (fs w') q = map_of (fs w) q)"
proof -
  let ?mp = "join skillsDir ''.skills-manifest.json''"
  let ?sk' = "put_member (config.name cfg) (manifest_entry e skillsDir cfg targetName) sk"
  let ?ps' = "AList.update ''skills'' (JObj ?sk') ps"
  have load: "load_manifest ?mp w = (Ok (JObj ps), w)"
    using present by (rule load_manifest_doc)
  have "updateManifest e skillsDir cfg targetName w =
     (Ok (), w\<lparr>trace := trace w @ [WriteFileSync ?mp (Doc (JObj ?ps'))],
               fs := AList.update ?mp (File (Doc (JObj ?ps'))) (fs w)\<rparr>)"
    using present by (intro updateManifest_object [OF load skills]) simp_all
  moreover have "''skills'' \<in> fst ` set ps"
    using skills by (metis domI dom_map_of_conv_image_fst)
  then have "map fst ?ps' = map fst ps" by (simp add: update_keys)
  ultimately show ?thesis
    by (simp add: update_conv' map_of_put_member_other)
qed

theorem C8_manifest_round_trip_witness:
  "\<exists>w' ps' sk'.
     updateManifest global_install_env ''/home/u/.claude/skills'' example_config ''claude-code''
       shared_manifest_world = (Ok (), w')
   \<and> map_of (fs w') ''/home/u/.claude/skills/.skills-manifest.json'' = Some (File (Doc (JObj ps')))
   \<and> map_of ps' ''schema'' = Some (JNum 1)
   \<and> map_of ps' ''skills'' = Some (JObj sk')
   \<and> map_of sk' ''other-skill'' = Some (JObj [(''version'', JStr ''0.1.0'')])"
proof -
  have mp: "join ''/home/u/.claude/skills'' ''.skills-manifest.json''
            = ''/home/u/.claude/skills/.skills-manifest.json''"
    by code_simp
  have present: "map_of (fs shared_manifest_world)
        (join ''/home/u/.claude/skills'' ''.skills-manifest.json'')
      = Some (File (Doc (JObj
            [(''schema'', JNum 1),
             (''skills'', JObj [(''other-skill'', JObj [(''version'', JStr ''0.1.0'')]),
                               (''@scope/pkg'', JObj [(''version'', JStr ''0.9.0'')])])])))"
    by code_simp
  have skills: "map_of [(''schema'', JNum 1),
             (''skills'', JObj [(''other-skill'', JObj [(''version'', JStr ''0.1.0'')]),
                               (''@scope/pkg'', JObj [(''version'', JStr ''0.9.0'')])])] ''skills''
      = Some (JObj [(''other-skill'', JObj [(''version'', JStr ''0.1.0'')]),
                    (''@scope/pkg'', JObj [(''version'', JStr ''0.9.0'')])])"
    by simp
  have nm: "config.name example_config \<noteq> ''other-skill''" by (simp add: example_config_def)
  from C8_manifest_round_trip [OF present skills, of global_install_env example_config "''claude-code''"]
  obtain w' ps' sk' where
    run: "updateManifest global_install_env ''/home/u/.claude/skills'' example_config ''claude-code''
       shared_manifest_world = (Ok (), w')"
    and written: "map_of (fs w') (join ''/home/u/.claude/skills'' ''.skills-manifest.json'')
       = Some (File (Doc (JObj ps')))"
    and top: "\<forall>k. k \<noteq> ''skills'' \<longrightarrow> map_of ps' k = map_of
            [(''schema'', JNum 1),
             (''skills'', JObj [(''other-skill'', JObj [(''version'', JStr ''0.1.0'')]),
                               (''@scope/pkg'', JObj [(''version'', JStr ''0.9.0'')])])] k"
    and sk: "map_of ps' ''skills'' = Some (JObj sk')"
    and others: "\<forall>k. k \<noteq> config.name example_config \<longrightarrow> map_of sk' k = map_of
            [(''other-skill'', JObj [(''version'', JStr ''0.1.0'')]),
             (''@scope/pkg'', JObj [(''version'', JStr ''0.9.0'')])] k"
    by blast
  from top have "map_of ps' ''schema'' = Some (JNum 1)" by simp
  moreover from others nm have "map_of sk' ''other-skill'' = Some (JObj [(''version'', JStr ''0.1.0'')])"
    by simp
  ultimately show ?thesis using run written sk unfolding mp by blast
qed

text \<open>
  C10, as stated, fails: a manifest whose \<open>skills\<close> is the number 5 has no
  object-valued \<open>skills\<close>, yet the assignment does not throw. The script is not in
  strict mode, where an assignment to a property of a number, string or boolean is
  dropped silently; the install succeeds and the skill is not recorded.
\<close>

theorem C10_unguarded_assignment_counterexample:
  "\<not> has_object_skills (JObj [(''skills'', JNum 5)]) \<and>
   map_of (fs numeric_skills_world) ''/repo/.claude/skills/.skills-manifest.json''
     = Some (File (Doc (JObj [(''skills'', JNum 5)]))) \<and>
   fst (updateManifest global_install_env ''/repo/.claude/skills'' example_config ''claude-code''
          numeric_skills_world) = Ok () \<and>
   fst (updateManifest global_install_env ''/repo/.claude/skills'' example_config ''claude-code''
          numeric_skills_world) \<noteq> Throw TypeError \<and>
   fst (installToTarget global_install_env 3 default_target example_config numeric_skills_world)
     = Ok ''/repo/.claude/skills/pkg''"
  by code_simp

text \<open>
  C10, amended. On a manifest file that parses as JSON, the install-side update throws
  a \<^verbatim>\<open>TypeError\<close>, leaving the world as it was, exactly when the value is \<open>null\<close>,
  has no own \<open>skills\<close> property (an array, a string, a number, an object without the
  key), or has \<open>skills\<close> equal to \<open>null\<close>. Where \<open>skills\<close> is a number, a string or
  a boolean, the update does not throw and rewrites the manifest with the content it
  had. A throwing update makes the install of that target fail, and the uninstaller is
  unaffected (\<open>install_fails_on_wrong_shape_manifest\<close>).
\<close>

theorem C10_wrong_shape_manifest:
  assumes present: "map_of (fs w) (join skillsDir ''.skills-manifest.json'') = Some (File (Doc m))"
  shows "(fst (updateManifest e skillsDir cfg targetName w) = Throw TypeError
            \<longleftrightarrow> m = JNull \<or> own_prop m ''skills'' = None \<or> own_prop m ''skills'' = Some JNull)
       \<and> (fst (updateManifest e skillsDir cfg targetName w) = Throw TypeError
            \<longrightarrow> snd (updateManifest e skillsDir cfg targetName w) = w)
       \<and> ((\<exists>s. own_prop m ''skills'' = Some s \<and> is_primitive s)
            \<longrightarrow> fst (updateManifest e skillsDir cfg targetName w) = Ok ()
               \<and> map_of (fs (snd (updateManifest e skillsDir cfg targetName w)))
                    (join skillsDir ''.skills-manifest.json'') = Some (File (Doc m)))"
proof -
  let ?mp = "join skillsDir ''.skills-manifest.json''"
  let ?a = "assign_skill m (config.name cfg) (manifest_entry e skillsDir cfg targetName)"
  have load: "load_manifest ?mp w = (Ok m, w)" using present by (rule load_manifest_doc)
  have wr: "\<And>c. writeFileSync (fs w) ?mp c = Ok (AList.update ?mp (File c) (fs w))"
    using present by (simp add: writeFileSync_existing)
  have run: "updateManifest e skillsDir cfg targetName w =
      (case ?a of
         Ok m' \<Rightarrow> (Ok (), w\<lparr>trace := trace w @ [WriteFileSync ?mp (Doc m')],
                             fs := AList.update ?mp (File (Doc m')) (fs w)\<rparr>)
       | Throw x \<Rightarrow> (Throw x, w)
       | Timeout \<Rightarrow> (Timeout, w))"
    using load wr
    by (simp add: updateManifest_def Let_def bind_io_def lift_res_def fs_call_def split: res.splits)
  have a: "fst (updateManifest e skillsDir cfg targetName w) = Throw TypeError
            \<longleftrightarrow> m = JNull \<or> own_prop m ''skills'' = None \<or> own_prop m ''skills'' = Some JNull"
    using assign_skill_throws [of m "config.name cfg" "manifest_entry e skillsDir cfg targetName"]
    by (cases ?a) (simp_all add: run)
  have b: "fst (updateManifest e skillsDir cfg targetName w) = Throw TypeError
            \<longrightarrow> snd (updateManifest e skillsDir cfg targetName w) = w"
    unfolding run by (simp split: res.splits)
  have c: "fst (updateManifest e skillsDir cfg targetName w) = Ok ()
               \<and> map_of (fs (snd (updateManifest e skillsDir cfg targetName w))) ?mp
                  = Some (File (Doc m))"
    if s: "own_prop m ''skills'' = Some s" and prim: "is_primitive s" for s
  proof -
    from s prim obtain ps where m: "m = JObj ps" and look: "map_of ps ''skills'' = Some s"
      by (cases m) (auto simp: array_index_def is_digit_def split: if_splits)
    from prim have "set_prop (Some s) (config.name cfg) (manifest_entry e skillsDir cfg targetName) = Ok s"
      by (cases s) simp_all
    with m look have "?a = Ok (JObj (AList.update ''skills'' s ps))"
      by (cases s) (simp_all add: assign_skill_def)
    moreover have "AList.update ''skills'' s ps = ps" using look by (rule update_triv)
    ultimately show ?thesis unfolding run by (simp add: m update_conv')
  qed
  from a b c show ?thesis by blast
qed

theorem C10_wrong_shape_manifest_witness:
  "map_of (fs wrong_shape_world) ''/repo/.claude/skills/.skills-manifest.json''
     = Some (File (Doc (JObj [(''other'', JNum 1)]))) \<and>
   fst (updateManifest global_install_env ''/repo/.claude/skills'' example_config ''claude-code''
          wrong_shape_world) = Throw TypeError \<and>
   snd (updateManifest global_install_env ''/repo/.claude/skills'' example_config ''claude-code''
          wrong_shape_world) = wrong_shape_world"
proof -
  have mp: "join ''/repo/.claude/skills'' ''.skills-manifest.json''
            = ''/repo/.claude/skills/.skills-manifest.json''"
    by code_simp
  have present: "map_of (fs wrong_shape_world) (join ''/repo/.claude/skills'' ''.skills-manifest.json'')
      = Some (File (Doc (JObj [(''other'', JNum 1)])))"
    by code_simp
  from C10_wrong_shape_manifest [OF present, of global_install_env example_config "''claude-code''"]
    present
  show ?thesis by (simp add: mp)
qed

lemma install_fails_on_wrong_shape_manifest:
  "fst (installToTarget global_install_env 3 default_target example_config wrong_shape_world)
     = Throw TypeError \<and>
   fst (uninstallFromTarget (global_install_env\<lparr>npm_config_global := None\<rparr>) default_target
          example_config wrong_shape_world) = Ok False"
  by code_simp

end
